theory Spec2Isabelle
  imports Complex_Main "HOL-Library.Sublist"
begin

section \<open>Taste fingerprint generator (scripts/taste\_fingerprint\_generator.py)\<close>

text \<open>
  Scores are modelled as exact real numbers (the similarity function, whose result
  depends on overflow and underflow of doubles, takes its arithmetic as a parameter),
  Python dictionaries as association lists in insertion order (a dictionary never holds
  a key twice, so the lists that stand for input dictionaries have distinct keys), and
  every exception the modelled code can raise as a value of \<open>py_error\<close>.
\<close>

datatype py_error = KeyError | ValueError

subsection \<open>Dimension registry\<close>

definition dimension_names :: "string list" where
  "dimension_names =
    [''color_palette_psychology'',
     ''lighting_philosophy'',
     ''camera_movement_personality'',
     ''shot_composition_philosophy'',
     ''depth_of_field_psychology'',
     ''texture_and_grain'',
     ''aspect_ratio_emotional_frame'',
     ''spatial_density'',
     ''cinematic_realism_spectrum'',
     ''blocking_and_performance_space'',
     ''color_temperature'',
     ''lens_distortion_and_perspective'',
     ''shadow_ratio'',
     ''frame_rate_and_motion'',
     ''visual_motif_repetition'',
     ''editing_tempo'',
     ''narrative_rhythm'',
     ''temporal_structure'',
     ''montage_philosophy'',
     ''scene_length_variance'',
     ''ellipsis_and_gaps'',
     ''transition_style'',
     ''rhythm_acceleration'',
     ''score_emotional_temperature'',
     ''score_density'',
     ''music_function'',
     ''soundscape_texture'',
     ''diegetic_vs_nondiegetic_ratio'',
     ''sonic_interiority'',
     ''silence_as_tool'',
     ''vocal_treatment'',
     ''rhythmic_percussion'',
     ''philosophical_stance'',
     ''narrative_tension_source'',
     ''moral_complexity'',
     ''ending_resolution'',
     ''power_dynamics'',
     ''intimacy_scale'',
     ''dialogue_philosophy'',
     ''relationship_to_class'',
     ''body_and_physicality'',
     ''time_relationship'',
     ''hope_quotient'',
     ''political_consciousness'',
     ''craft_precision_vs_rawness'',
     ''art_cinema_vs_pop_cinema_mode'',
     ''narrative_ambition_level'',
     ''irony_sincerity_register'',
     ''emotional_weight_tolerance'',
     ''performance_style_preference'',
     ''script_construction_visibility'',
     ''auteur_intentionality_desire'',
     ''emotional_temperature'',
     ''catharsis_availability'',
     ''tonal_consistency'',
     ''empathy_requirement'',
     ''beauty_priority'',
     ''sensory_immersion'',
     ''vulnerability_exposure'',
     ''mystery_comfort'',
     ''artifice_awareness'',
     ''suffering_tolerance'']"

subsection \<open>Score aggregation: \<open>_calculate_average_scores\<close>\<close>

text \<open>
  A movie is read only through \<open>movie.get('dimensional_scores', {})\<close>: it is modelled
  by that entry, \<open>None\<close> when the key is missing. A score dictionary maps a dimension
  name to a number or to Python's \<open>None\<close>.
\<close>

type_synonym score_dict = "(string \<times> real option) list"

type_synonym scored_movie = "score_dict option"

type_synonym sums_counts = "(string \<rightharpoonup> real) \<times> (string \<rightharpoonup> nat)"

definition scores_of :: "scored_movie \<Rightarrow> score_dict" where
  "scores_of movie = (case movie of None \<Rightarrow> [] | Some scores \<Rightarrow> scores)"

text \<open>The inner loop \<open>for dim, score in scores.items()\<close>.\<close>

fun add_scores :: "sums_counts \<Rightarrow> score_dict \<Rightarrow> py_error + sums_counts" where
  "add_scores acc [] = Inr acc"
| "add_scores (dimension_sums, dimension_counts) ((dname, score) # rest) =
     (case (dimension_sums dname, score) of
        (Some subtotal, Some s) \<Rightarrow>
          (case dimension_counts dname of
             None \<Rightarrow> Inl KeyError
           | Some n \<Rightarrow>
               add_scores (dimension_sums(dname \<mapsto> subtotal + s), dimension_counts(dname \<mapsto> n + 1)) rest)
      | _ \<Rightarrow> add_scores (dimension_sums, dimension_counts) rest)"

text \<open>The outer loop \<open>for movie in loved_movies_scores\<close>.\<close>

fun add_movies :: "sums_counts \<Rightarrow> scored_movie list \<Rightarrow> py_error + sums_counts" where
  "add_movies acc [] = Inr acc"
| "add_movies acc (movie # rest) =
     (case add_scores acc (scores_of movie) of
        Inl e \<Rightarrow> Inl e
      | Inr acc' \<Rightarrow> add_movies acc' rest)"

text \<open>
  The loop that fills \<open>avg_scores\<close>, one assignment for each registered name in order;
  the names are distinct, so each assignment adds a new key at the end.
\<close>

fun averages :: "sums_counts \<Rightarrow> string list \<Rightarrow> py_error + (string \<times> real) list" where
  "averages acc [] = Inr []"
| "averages (dimension_sums, dimension_counts) (dname # dims) =
     (case dimension_counts dname of
        None \<Rightarrow> Inl KeyError
      | Some n \<Rightarrow>
          (if n > 0 then
             (case dimension_sums dname of
                None \<Rightarrow> Inl KeyError
              | Some subtotal \<Rightarrow>
                  (case averages (dimension_sums, dimension_counts) dims of
                     Inl e \<Rightarrow> Inl e
                   | Inr avg_scores \<Rightarrow> Inr ((dname, subtotal / real n) # avg_scores)))
           else
             (case averages (dimension_sums, dimension_counts) dims of
                Inl e \<Rightarrow> Inl e
              | Inr avg_scores \<Rightarrow> Inr ((dname, 4) # avg_scores))))"

definition calculate_average_scores :: "scored_movie list \<Rightarrow> py_error + (string \<times> real) list" where
  "calculate_average_scores loved_movies_scores =
     (case add_movies (map_of (map (\<lambda>dname. (dname, 0)) dimension_names),
                       map_of (map (\<lambda>dname. (dname, 0)) dimension_names)) loved_movies_scores of
        Inl e \<Rightarrow> Inl e
      | Inr acc \<Rightarrow> averages acc dimension_names)"

text \<open>
  What the specification says of the aggregate: the scores that the movies supply for a
  dimension (a movie supplies a dimension when its dictionary holds a number for it),
  and their arithmetic mean, or the neutral midpoint when there is none.
\<close>

definition supplied :: "string \<Rightarrow> scored_movie list \<Rightarrow> real list" where
  "supplied dname movies =
     concat (map (\<lambda>movie. case map_of (scores_of movie) dname of
                             Some (Some s) \<Rightarrow> [s] | _ \<Rightarrow> []) movies)"

definition mean_or_neutral :: "real list \<Rightarrow> real" where
  "mean_or_neutral xs = (if xs = [] then 4 else sum_list xs / real (length xs))"

text \<open>
  Proof vocabulary: the numeric entries that one dictionary, and a list of movies, hold
  for a dimension, in iteration order.
\<close>

definition entries :: "string \<Rightarrow> score_dict \<Rightarrow> real list" where
  "entries d es = List.map_filter (\<lambda>(k, v). if k = d then v else None) es"

definition all_entries :: "string \<Rightarrow> scored_movie list \<Rightarrow> real list" where
  "all_entries d movies = concat (map (\<lambda>movie. entries d (scores_of movie)) movies)"


text \<open>
  Dropping the malformed entries of a score dictionary: those whose name is not a
  registered dimension and those whose score is \<open>None\<close>.
\<close>

definition drop_malformed :: "score_dict \<Rightarrow> score_dict" where
  "drop_malformed es = filter (\<lambda>(k, v). k \<in> set dimension_names \<and> v \<noteq> None) es"

subsection \<open>Strong preferences: \<open>_identify_strong_preferences\<close>\<close>

record strong_preferences =
  low_end_preferences :: "(string \<times> real) list"
  high_end_preferences :: "(string \<times> real) list"

text \<open>The loop \<open>for dim, score in avg_scores.items()\<close> with its two growing lists.\<close>

fun classify ::
  "(string \<times> real) list \<Rightarrow> (string \<times> real) list \<Rightarrow> (string \<times> real) list
     \<Rightarrow> (string \<times> real) list \<times> (string \<times> real) list" where
  "classify [] strong_low strong_high = (strong_low, strong_high)"
| "classify ((dname, score) # rest) strong_low strong_high =
     (if score \<le> 2.5 then classify rest (strong_low @ [(dname, score)]) strong_high
      else if score \<ge> 5.5 then classify rest strong_low (strong_high @ [(dname, score)])
      else classify rest strong_low strong_high)"

text \<open>
  Python's \<open>list.sort\<close> is stable, and with \<open>reverse=True\<close> it still keeps elements of
  equal key in their original order: \<open>sort_key\<close> (a stable insertion sort) on the key,
  and on the negated key for the descending sort.
\<close>

definition identify_strong_preferences :: "(string \<times> real) list \<Rightarrow> strong_preferences" where
  "identify_strong_preferences avg_scores =
     (case classify avg_scores [] [] of
        (strong_low, strong_high) \<Rightarrow>
          \<lparr>low_end_preferences = take 10 (sort_key snd strong_low),
           high_end_preferences = take 10 (sort_key (\<lambda>x. - snd x) strong_high)\<rparr>)"

subsection \<open>Taste vector: \<open>_create_taste_vector\<close>\<close>

text \<open>\<open>d.get(key, default)\<close> on a dictionary.\<close>

definition dict_get :: "(string \<times> 'a) list \<Rightarrow> string \<Rightarrow> 'a \<Rightarrow> 'a" where
  "dict_get d key dflt = (case map_of d key of Some v \<Rightarrow> v | None \<Rightarrow> dflt)"

definition create_taste_vector :: "(string \<times> real) list \<Rightarrow> real list" where
  "create_taste_vector avg_scores =
     (let vector = map (\<lambda>dname. dict_get avg_scores dname 4) dimension_names;
          normalized = map (\<lambda>x. (x - 1) / 6) vector
      in normalized)"

subsection \<open>Narrative: the six category functions\<close>

text \<open>
  Each category function appends fixed sentences to \<open>parts\<close> and returns them joined by
  spaces. The wording plays no part in what follows, so a sentence is identified by the
  dimension whose score gates it and by the pole it describes (the \<open>if\<close> branch is the
  low pole, the \<open>elif\<close> branch, or the only branch of a one-sided check, the high pole),
  and a function returns its list \<open>parts\<close>.
\<close>

datatype pole = Low | High

type_synonym sentence = "string \<times> pole"

definition narrate_visual_taste :: "(string \<times> real) list \<Rightarrow> sentence list" where
  "narrate_visual_taste scores =
        (let color_score = dict_get scores ''color_palette_psychology'' 4 in
         if color_score < 3 then [(''color_palette_psychology'', Low)]
         else if color_score > 5 then [(''color_palette_psychology'', High)] else [])
       @ (let lighting_score = dict_get scores ''lighting_philosophy'' 4 in
         if lighting_score < 3 then [(''lighting_philosophy'', Low)]
         else if lighting_score > 5 then [(''lighting_philosophy'', High)] else [])
       @ (let camera_score = dict_get scores ''camera_movement_personality'' 4 in
         if camera_score < 3 then [(''camera_movement_personality'', Low)]
         else if camera_score > 5 then [(''camera_movement_personality'', High)] else [])
       @ (let realism_score = dict_get scores ''cinematic_realism_spectrum'' 4 in
         if realism_score < 3 then [(''cinematic_realism_spectrum'', Low)]
         else if realism_score > 5 then [(''cinematic_realism_spectrum'', High)] else [])"

definition narrate_rhythm_taste :: "(string \<times> real) list \<Rightarrow> sentence list" where
  "narrate_rhythm_taste scores =
        (let tempo_score = dict_get scores ''editing_tempo'' 4 in
         if tempo_score < 3 then [(''editing_tempo'', Low)]
         else if tempo_score > 5 then [(''editing_tempo'', High)] else [])
       @ (let temporal_score = dict_get scores ''temporal_structure'' 4 in
         if temporal_score > 5 then [(''temporal_structure'', High)] else [])"

definition narrate_sound_taste :: "(string \<times> real) list \<Rightarrow> sentence list" where
  "narrate_sound_taste scores =
        (let score_temp = dict_get scores ''score_emotional_temperature'' 4 in
         if score_temp < 3 then [(''score_emotional_temperature'', Low)]
         else if score_temp > 5 then [(''score_emotional_temperature'', High)] else [])
       @ (let silence_score = dict_get scores ''silence_as_tool'' 4 in
         if silence_score > 5 then [(''silence_as_tool'', High)] else [])
       @ (let soundscape_score = dict_get scores ''soundscape_texture'' 4 in
         if soundscape_score < 3 then [(''soundscape_texture'', Low)]
         else if soundscape_score > 5 then [(''soundscape_texture'', High)] else [])"

definition narrate_quality_taste :: "(string \<times> real) list \<Rightarrow> sentence list" where
  "narrate_quality_taste scores =
        (let craft_score = dict_get scores ''craft_precision_vs_rawness'' 4 in
         if craft_score < 3 then [(''craft_precision_vs_rawness'', Low)]
         else if craft_score > 5 then [(''craft_precision_vs_rawness'', High)] else [])
       @ (let art_pop_score = dict_get scores ''art_cinema_vs_pop_cinema_mode'' 4 in
         if art_pop_score < 3 then [(''art_cinema_vs_pop_cinema_mode'', Low)]
         else if art_pop_score > 5 then [(''art_cinema_vs_pop_cinema_mode'', High)] else [])
       @ (let ambition_score = dict_get scores ''narrative_ambition_level'' 4 in
         if ambition_score < 2.5 then [(''narrative_ambition_level'', Low)]
         else if ambition_score > 5.5 then [(''narrative_ambition_level'', High)] else [])
       @ (let irony_score = dict_get scores ''irony_sincerity_register'' 4 in
         if irony_score < 3 then [(''irony_sincerity_register'', Low)]
         else if irony_score > 5 then [(''irony_sincerity_register'', High)] else [])
       @ (let weight_score = dict_get scores ''emotional_weight_tolerance'' 4 in
         if weight_score < 2.5 then [(''emotional_weight_tolerance'', Low)]
         else if weight_score > 5.5 then [(''emotional_weight_tolerance'', High)] else [])
       @ (let performance_score = dict_get scores ''performance_style_preference'' 4 in
         if performance_score < 3 then [(''performance_style_preference'', Low)]
         else if performance_score > 5 then [(''performance_style_preference'', High)] else [])
       @ (let script_score = dict_get scores ''script_construction_visibility'' 4 in
         if script_score > 5 then [(''script_construction_visibility'', High)] else [])
       @ (let auteur_score = dict_get scores ''auteur_intentionality_desire'' 4 in
         if auteur_score > 5 then [(''auteur_intentionality_desire'', High)] else [])"

definition narrate_story_taste :: "(string \<times> real) list \<Rightarrow> sentence list" where
  "narrate_story_taste scores =
        (let philosophy_score = dict_get scores ''philosophical_stance'' 4 in
         if philosophy_score < 3 then [(''philosophical_stance'', Low)]
         else if philosophy_score > 5 then [(''philosophical_stance'', High)] else [])
       @ (let resolution_score = dict_get scores ''ending_resolution'' 4 in
         if resolution_score > 5 then [(''ending_resolution'', High)] else [])
       @ (let moral_score = dict_get scores ''moral_complexity'' 4 in
         if moral_score > 5 then [(''moral_complexity'', High)] else [])
       @ (let class_score = dict_get scores ''relationship_to_class'' 4 in
         if class_score > 5 then [(''relationship_to_class'', High)] else [])"

definition narrate_emotional_taste :: "(string \<times> real) list \<Rightarrow> sentence list" where
  "narrate_emotional_taste scores =
        (let temp_score = dict_get scores ''emotional_temperature'' 4 in
         if temp_score < 3 then [(''emotional_temperature'', Low)]
         else if temp_score > 5 then [(''emotional_temperature'', High)] else [])
       @ (let vulnerability_score = dict_get scores ''vulnerability_exposure'' 4 in
         if vulnerability_score > 5 then [(''vulnerability_exposure'', High)] else [])
       @ (let mystery_score = dict_get scores ''mystery_comfort'' 4 in
         if mystery_score > 5 then [(''mystery_comfort'', High)] else [])
       @ (let beauty_score = dict_get scores ''beauty_priority'' 4 in
         if beauty_score < 3 then [(''beauty_priority'', Low)]
         else if beauty_score > 5 then [(''beauty_priority'', High)] else [])"

text \<open>
  \<open>_generate_narrative_fingerprint\<close> joins the non-empty category narratives in this
  order: visual, rhythm, sound, quality, story, emotional.
\<close>

definition generate_narrative_fingerprint :: "(string \<times> real) list \<Rightarrow> sentence list" where
  "generate_narrative_fingerprint avg_scores =
     narrate_visual_taste avg_scores @ narrate_rhythm_taste avg_scores
     @ narrate_sound_taste avg_scores @ narrate_quality_taste avg_scores
     @ narrate_story_taste avg_scores @ narrate_emotional_taste avg_scores"

text \<open>
  The catalogue of the renderer's sentences, for stating what gates them: the dimensions
  that have a low-pole sentence, those that have a high-pole sentence, and the gate of
  each.
\<close>

definition low_pole_dimensions :: "string list" where
  "low_pole_dimensions =
    [''color_palette_psychology'',
     ''lighting_philosophy'',
     ''camera_movement_personality'',
     ''cinematic_realism_spectrum'',
     ''editing_tempo'',
     ''score_emotional_temperature'',
     ''soundscape_texture'',
     ''craft_precision_vs_rawness'',
     ''art_cinema_vs_pop_cinema_mode'',
     ''narrative_ambition_level'',
     ''irony_sincerity_register'',
     ''emotional_weight_tolerance'',
     ''performance_style_preference'',
     ''philosophical_stance'',
     ''emotional_temperature'',
     ''beauty_priority'']"

definition high_pole_dimensions :: "string list" where
  "high_pole_dimensions =
    [''color_palette_psychology'',
     ''lighting_philosophy'',
     ''camera_movement_personality'',
     ''cinematic_realism_spectrum'',
     ''editing_tempo'',
     ''temporal_structure'',
     ''score_emotional_temperature'',
     ''silence_as_tool'',
     ''soundscape_texture'',
     ''craft_precision_vs_rawness'',
     ''art_cinema_vs_pop_cinema_mode'',
     ''narrative_ambition_level'',
     ''irony_sincerity_register'',
     ''emotional_weight_tolerance'',
     ''performance_style_preference'',
     ''script_construction_visibility'',
     ''auteur_intentionality_desire'',
     ''philosophical_stance'',
     ''ending_resolution'',
     ''moral_complexity'',
     ''relationship_to_class'',
     ''emotional_temperature'',
     ''vulnerability_exposure'',
     ''mystery_comfort'',
     ''beauty_priority'']"

definition low_gate :: "string \<Rightarrow> real" where
  "low_gate dname =
     (if dname = ''narrative_ambition_level'' \<or> dname = ''emotional_weight_tolerance''
      then 2.5 else 3)"

definition high_gate :: "string \<Rightarrow> real" where
  "high_gate dname =
     (if dname = ''narrative_ambition_level'' \<or> dname = ''emotional_weight_tolerance''
      then 5.5 else 5)"

subsection \<open>Similarity: \<open>calculate_similarity\<close>\<close>





section \<open>Recommendation engine (scripts/recommendation\_engine.py)\<close>

subsection \<open>Slugs: \<open>_create_slug\<close>\<close>

text \<open>
  Titles are strings of 8-bit characters, read as the code points below 256.
  \<open>str.lower\<close> maps the capital letters of that range (A to Z, and U+00C0 to U+00DE but
  the multiplication sign U+00D7) to the letter 32 places up. The class \<open>\s\<close> of a
  Python 3 pattern on \<open>str\<close> holds, below 256, the code points 9 to 13, 28 to 32, 133
  and 160.
\<close>

definition lower_char :: "char \<Rightarrow> char" where
  "lower_char c =
     (let n = of_char c :: nat
      in if (65 \<le> n \<and> n \<le> 90) \<or> (192 \<le> n \<and> n \<le> 222 \<and> n \<noteq> 215)
         then char_of (n + 32) else c)"

definition is_space :: "char \<Rightarrow> bool" where
  "is_space c =
     (let n = of_char c :: nat
      in (9 \<le> n \<and> n \<le> 13) \<or> (28 \<le> n \<and> n \<le> 32) \<or> n = 133 \<or> n = 160)"

text \<open>The character class \<open>a-z0-9\<close>.\<close>

definition is_lower_or_digit :: "char \<Rightarrow> bool" where
  "is_lower_or_digit c =
     (let n = of_char c :: nat in (97 \<le> n \<and> n \<le> 122) \<or> (48 \<le> n \<and> n \<le> 57))"

text \<open>\<open>re.sub(r'[^a-z0-9\s-]', '', slug)\<close>: every character outside the class is deleted.\<close>

definition sub_disallowed :: "string \<Rightarrow> string" where
  "sub_disallowed s = filter (\<lambda>c. is_lower_or_digit c \<or> is_space c \<or> c = CHR ''-'') s"

text \<open>\<open>re.sub(r'\s+', '-', slug)\<close>: every maximal run of whitespace becomes one hyphen.\<close>

function sub_spaces :: "string \<Rightarrow> string" where
  "sub_spaces [] = []"
| "sub_spaces (c # cs) =
     (if is_space c then CHR ''-'' # sub_spaces (dropWhile is_space cs)
      else c # sub_spaces cs)"
  by pat_completeness auto
termination
  by (relation "measure length") (auto simp: length_dropWhile_le less_Suc_eq_le)

text \<open>\<open>slug.strip('-')\<close>.\<close>

definition strip_hyphens :: "string \<Rightarrow> string" where
  "strip_hyphens s =
     rev (dropWhile (\<lambda>c. c = CHR ''-'') (rev (dropWhile (\<lambda>c. c = CHR ''-'') s)))"

definition create_slug :: "string \<Rightarrow> string" where
  "create_slug title =
     (let slug = map lower_char title;
          slug = sub_disallowed slug;
          slug = sub_spaces slug
      in strip_hyphens slug)"

text \<open>What a slug may consist of: lowercase letters, digits and hyphens.\<close>

definition slug_char :: "char \<Rightarrow> bool" where
  "slug_char c = (is_lower_or_digit c \<or> c = CHR ''-'')"

subsection \<open>Movie records, candidates and the taste profile\<close>

text \<open>
  A movie is a dictionary read through \<open>get\<close>; a field is \<open>None\<close> when the key is
  missing. A candidate is a movie record returned by the similarity search, with the
  keys that the engine adds to it; the key \<open>type\<close> is the field \<open>kind\<close>.
\<close>

record movie =
  title :: "string option"
  year :: "int option"
  genres :: "string list option"
  themes :: "string list option"
  director :: "string option"
  cast :: "string list option"
  mood :: "string option"

record score_breakdown_rec =
  similarity :: real
  genre_match :: real
  theme_match :: real
  director_match :: bool

record candidate = movie +
  similarity_score :: "real option"
  kind :: "string option"
  similar_to :: "string option"
  base_similarity :: "real option"
  recommendation_score :: "real option"
  score_breakdown :: "score_breakdown_rec option"

record taste_profile =
  top_genres :: "string list"
  top_themes :: "string list"
  top_directors :: "string list"
  top_actors :: "string list"
  top_decades :: "string list"
  top_moods :: "string list"
  genre_distribution :: "(string \<times> nat) list"
  total_movies :: nat
  average_year :: real

text \<open>\<open>m.get(key, default)\<close> on a field.\<close>

definition get_or :: "'a option \<Rightarrow> 'a \<Rightarrow> 'a" where
  "get_or field dflt = (case field of Some v \<Rightarrow> v | None \<Rightarrow> dflt)"

text \<open>\<open>counts[key] += 1\<close> on a \<open>defaultdict(int)\<close>, which keeps insertion order.\<close>

fun increment :: "(string \<times> nat) list \<Rightarrow> string \<Rightarrow> (string \<times> nat) list" where
  "increment [] key = [(key, 1)]"
| "increment ((k, n) # rest) key =
     (if k = key then (k, n + 1) # rest else (k, n) # increment rest key)"

text \<open>\<open>str\<close> of an integer, for the decade label \<open>f"{decade}s"\<close>.\<close>

function str_nat :: "nat \<Rightarrow> string" where
  "str_nat n =
     (if n < 10 then [char_of (48 + n)] else str_nat (n div 10) @ [char_of (48 + n mod 10)])"
  by pat_completeness auto
termination
  by (relation "measure id") auto

definition str_int :: "int \<Rightarrow> string" where
  "str_int i = (if i < 0 then CHR ''-'' # str_nat (nat (- i)) else str_nat (nat i))"

subsection \<open>\<open>_analyze_taste_profile\<close>\<close>

record counters =
  genres_count :: "(string \<times> nat) list"
  themes_count :: "(string \<times> nat) list"
  directors_count :: "(string \<times> nat) list"
  actors_count :: "(string \<times> nat) list"
  decades_count :: "(string \<times> nat) list"
  moods_count :: "(string \<times> nat) list"

text \<open>The body of the loop \<open>for movie in loved_movies\<close>.\<close>

definition count_movie :: "counters \<Rightarrow> 'a movie_scheme \<Rightarrow> counters" where
  "count_movie cs movie =
     \<lparr>genres_count = foldl increment (genres_count cs) (get_or (genres movie) []),
      themes_count = foldl increment (themes_count cs) (get_or (themes movie) []),
      directors_count =
        (let director = get_or (director movie) ''''
         in if director \<noteq> '''' \<and> director \<noteq> ''N/A''
            then increment (directors_count cs) director else directors_count cs),
      actors_count = foldl increment (actors_count cs) (take 3 (get_or (cast movie) [])),
      decades_count =
        (let year = get_or (year movie) 0
         in if year \<noteq> 0
            then (let decade = (year div 10) * 10
                  in increment (decades_count cs) (str_int decade @ ''s''))
            else decades_count cs),
      moods_count =
        (let mood = get_or (mood movie) ''''
         in if mood \<noteq> '''' then increment (moods_count cs) mood else moods_count cs)\<rparr>"

text \<open>
  \<open>sorted(counts.items(), key=lambda x: x[1], reverse=True)\<close> and the names of the
  first \<open>k\<close> items; the sort is stable.
\<close>

definition top_names :: "nat \<Rightarrow> (string \<times> nat) list \<Rightarrow> string list" where
  "top_names k counts = map fst (take k (sort_key (\<lambda>x. - int (snd x)) counts))"

definition analyze_taste_profile :: "'a movie_scheme list \<Rightarrow> taste_profile" where
  "analyze_taste_profile loved_movies =
     (let cs = foldl count_movie
                 \<lparr>genres_count = [], themes_count = [], directors_count = [],
                  actors_count = [], decades_count = [], moods_count = []\<rparr> loved_movies
      in \<lparr>top_genres = top_names 5 (genres_count cs),
          top_themes = top_names 5 (themes_count cs),
          top_directors = top_names 5 (directors_count cs),
          top_actors = top_names 5 (actors_count cs),
          top_decades = top_names 3 (decades_count cs),
          top_moods = top_names 3 (moods_count cs),
          genre_distribution = genres_count cs,
          total_movies = length loved_movies,
          average_year =
            (if loved_movies \<noteq> []
             then real_of_int (sum_list (map (\<lambda>m. get_or (year m) 0) loved_movies))
                    / real (length loved_movies)
             else 0)\<rparr>)"

subsection \<open>\<open>_score_candidates\<close>\<close>

text \<open>The body of the loop \<open>for candidate in candidates\<close>, which fills two keys.\<close>

definition score_candidate :: "taste_profile \<Rightarrow> real \<Rightarrow> candidate \<Rightarrow> candidate" where
  "score_candidate taste_profile diversity_factor candidate =
     (let similarity = get_or (base_similarity candidate) 0;
          candidate_genres = set (get_or (genres candidate) []);
          profile_genres = set (top_genres taste_profile);
          genre_match = real (card (candidate_genres \<inter> profile_genres))
                          / real (max (card candidate_genres) 1);
          director_bonus =
            (if (case director candidate of
                   Some d \<Rightarrow> d \<in> set (top_directors taste_profile) | None \<Rightarrow> False)
             then 1.2 else 1.0 :: real);
          candidate_themes = set (get_or (themes candidate) []);
          profile_themes = set (top_themes taste_profile);
          theme_match =
            (if candidate_themes \<noteq> {}
             then real (card (candidate_themes \<inter> profile_themes))
                    / real (max (card candidate_themes) 1)
             else 0);
          year = get_or (year candidate) 2000;
          recency_factor = min (real_of_int year / 2020) 1.0;
          base_score = similarity * 0.5;
          genre_score = genre_match * 0.2;
          theme_score = theme_match * 0.15;
          director_score = (director_bonus - 1.0) * 0.15;
          final_score =
            base_score * (1 - diversity_factor * 0.3) + genre_score + theme_score
            + director_score + recency_factor * diversity_factor * 0.1
      in candidate
           \<lparr>recommendation_score := Some final_score,
            score_breakdown :=
              Some \<lparr>similarity = similarity, genre_match = genre_match,
                    theme_match = theme_match, director_match = (director_bonus > 1.0)\<rparr>\<rparr>)"

text \<open>
  The scored list, sorted by descending score (stable). The set \<open>loved_titles\<close> that
  the function computes from \<open>loved_movies\<close> is not used.
\<close>

definition score_candidates ::
  "candidate list \<Rightarrow> taste_profile \<Rightarrow> 'a movie_scheme list \<Rightarrow> real \<Rightarrow> candidate list" where
  "score_candidates candidates taste_profile loved_movies diversity_factor =
     sort_key (\<lambda>x. - get_or (recommendation_score x) 0)
       (map (score_candidate taste_profile diversity_factor) candidates)"

subsection \<open>\<open>_select_top_recommendations\<close>\<close>

text \<open>
  The loop with its \<open>break\<close>: \<open>seen_titles\<close> and \<open>recommendations\<close> are threaded
  through. The count is compared after the append, so a request for zero or fewer
  still returns the first admissible candidate.
\<close>

fun select_loop :: "candidate list \<Rightarrow> int \<Rightarrow> string set \<Rightarrow> candidate list \<Rightarrow> candidate list" where
  "select_loop [] num_recommendations seen_titles recommendations = recommendations"
| "select_loop (candidate # rest) num_recommendations seen_titles recommendations =
     (let title_slug = create_slug (get_or (title candidate) '''')
      in if title_slug \<notin> seen_titles \<and> kind candidate \<noteq> Some ''loved''
         then (let recommendations' = recommendations @ [candidate];
                   seen_titles' = insert title_slug seen_titles
               in if int (length recommendations') \<ge> num_recommendations
                  then recommendations'
                  else select_loop rest num_recommendations seen_titles' recommendations')
         else select_loop rest num_recommendations seen_titles recommendations)"

definition select_top_recommendations :: "candidate list \<Rightarrow> int \<Rightarrow> candidate list" where
  "select_top_recommendations scored_candidates num_recommendations =
     select_loop scored_candidates num_recommendations {} []"

subsection \<open>\<open>generate_recommendations\<close>\<close>

text \<open>
  The similarity search of the analyzer is a parameter: \<open>find_similar_movies slug limit\<close>
  is the list it returns once \<open>_ensure_movies_analyzed\<close> has filled the vector store.
  Of the returned dictionary the recommendations and the taste profile are modelled; the
  map, the insights and the timestamp are computed from them and from the clock.
\<close>

record recommendation_result =
  recommendations :: "candidate list"
  result_taste_profile :: taste_profile

definition excluded_slugs :: "'a movie_scheme list \<Rightarrow> 'a movie_scheme list option \<Rightarrow> string set" where
  "excluded_slugs user_loved_movies user_rated_movies =
     (let user_rated_movies = (case user_rated_movies of None \<Rightarrow> user_loved_movies | Some r \<Rightarrow> r)
      in set (map (\<lambda>m. create_slug (get_or (title m) '''')) user_rated_movies))"

text \<open>Step 3: the candidates gathered for one loved movie.\<close>

definition candidates_for ::
  "(string \<Rightarrow> nat \<Rightarrow> candidate list) \<Rightarrow> string set \<Rightarrow> 'a movie_scheme \<Rightarrow> candidate list" where
  "candidates_for find_similar_movies excluded movie =
     (let movie_slug = create_slug (get_or (title movie) '''');
          similar = find_similar_movies movie_slug 10
      in map (\<lambda>candidate. candidate
                \<lparr>similar_to := title movie,
                 base_similarity := Some (get_or (similarity_score candidate) 0)\<rparr>)
           (filter (\<lambda>candidate. create_slug (get_or (title candidate) '''') \<notin> excluded) similar))"

definition generate_recommendations ::
  "(string \<Rightarrow> nat \<Rightarrow> candidate list) \<Rightarrow> 'a movie_scheme list \<Rightarrow> 'a movie_scheme list option
     \<Rightarrow> int \<Rightarrow> real \<Rightarrow> recommendation_result" where
  "generate_recommendations find_similar_movies user_loved_movies user_rated_movies
       num_recommendations diversity_factor =
     (let excluded = excluded_slugs user_loved_movies user_rated_movies;
          taste_profile = analyze_taste_profile user_loved_movies;
          all_candidates = concat (map (candidates_for find_similar_movies excluded) user_loved_movies);
          scored_recommendations =
            score_candidates all_candidates taste_profile user_loved_movies diversity_factor;
          final_recommendations = select_top_recommendations scored_recommendations num_recommendations
      in \<lparr>recommendations = final_recommendations, result_taste_profile = taste_profile\<rparr>)"

text \<open>
  The score as the specification writes it, from the candidate's fields and the profile.
\<close>

definition spec_genre_match :: "taste_profile \<Rightarrow> candidate \<Rightarrow> real" where
  "spec_genre_match profile c =
     real (card (set (get_or (genres c) []) \<inter> set (top_genres profile)))
       / real (max (card (set (get_or (genres c) []))) 1)"

definition spec_theme_match :: "taste_profile \<Rightarrow> candidate \<Rightarrow> real" where
  "spec_theme_match profile c =
     (if get_or (themes c) [] = [] then 0
      else real (card (set (get_or (themes c) []) \<inter> set (top_themes profile)))
             / real (max (card (set (get_or (themes c) []))) 1))"

definition spec_director_bonus :: "taste_profile \<Rightarrow> candidate \<Rightarrow> real" where
  "spec_director_bonus profile c =
     (if director c \<in> Some ` set (top_directors profile) then 1.2 else 1.0)"

definition spec_recency :: "candidate \<Rightarrow> real" where
  "spec_recency c = min (real_of_int (get_or (year c) 2000) / 2020) 1.0"

definition spec_score :: "taste_profile \<Rightarrow> real \<Rightarrow> candidate \<Rightarrow> real" where
  "spec_score profile d c =
     get_or (base_similarity c) 0 * 0.5 * (1 - d * 0.3)
     + spec_genre_match profile c * 0.2
     + spec_theme_match profile c * 0.15
     + (spec_director_bonus profile c - 1.0) * 0.15
     + spec_recency c * d * 0.1"

text \<open>
  The specification's worked scenario: similarity 0.8, the candidate's only genre among
  the profile's, no themes, a director who is not a favourite, and the year 1818, for
  which the recency is 0.9.
\<close>

definition scenario_profile :: taste_profile where
  "scenario_profile =
     \<lparr>top_genres = [''Drama''], top_themes = [], top_directors = [''Agnes Varda''],
      top_actors = [], top_decades = [], top_moods = [],
      genre_distribution = [(''Drama'', 1)], total_movies = 1, average_year = 1962\<rparr>"

definition scenario_candidate :: candidate where
  "scenario_candidate =
     \<lparr>title = Some ''Frankenstein'', year = Some 1818, genres = Some [''Drama''],
      themes = None, director = Some ''Mary Shelley'', cast = None, mood = None,
      similarity_score = Some 0.8, kind = None, similar_to = Some ''Cleo from 5 to 7'',
      base_similarity = Some 0.8, recommendation_score = None, score_breakdown = None\<rparr>"

text \<open>A loved-films list with one dated film and one film without a year.\<close>

definition sample_loved :: "movie list" where
  "sample_loved =
     [\<lparr>title = Some ''Alien'', year = Some 1979, genres = Some [''Horror''], themes = None,
        director = Some ''Ridley Scott'', cast = None, mood = None\<rparr>,
      \<lparr>title = Some ''Untitled'', year = None, genres = None, themes = None,
        director = None, cast = None, mood = None\<rparr>]"

text \<open>A similarity search that returns an already-seen film and two films of equal slug.\<close>

definition sample_similar :: "string \<Rightarrow> nat \<Rightarrow> candidate list" where
  "sample_similar movie_id limit =
     (if movie_id = ''alien'' then
        [\<lparr>title = Some ''ALIEN!'', year = Some 1979, genres = Some [''Horror''], themes = None,
           director = Some ''Ridley Scott'', cast = None, mood = None,
           similarity_score = Some 0.99, kind = None, similar_to = None,
           base_similarity = None, recommendation_score = None, score_breakdown = None\<rparr>,
         \<lparr>title = Some ''Aliens'', year = Some 1986, genres = Some [''Horror'', ''Action''], themes = None,
           director = Some ''James Cameron'', cast = None, mood = None,
           similarity_score = Some 0.9, kind = None, similar_to = None,
           base_similarity = None, recommendation_score = None, score_breakdown = None\<rparr>,
         \<lparr>title = Some ''aliens'', year = Some 1986, genres = Some [''Action''], themes = None,
           director = Some ''James Cameron'', cast = None, mood = None,
           similarity_score = Some 0.8, kind = None, similar_to = None,
           base_similarity = None, recommendation_score = None, score_breakdown = None\<rparr>]
      else [])"

section \<open>Verification\<close>

subsection \<open>Score aggregation\<close>

lemma entries_Nil [simp]: "entries d [] = []"
  by (simp add: entries_def)

lemma entries_Cons [simp]:
  "entries d ((k, v) # es) = (case v of Some s \<Rightarrow> if k = d then s # entries d es else entries d es | None \<Rightarrow> entries d es)"
  by (simp add: entries_def split: option.splits)

lemma add_scores_run:
  "dom sm = dom ct \<Longrightarrow>
   \<exists>sm' ct'. add_scores (sm, ct) es = Inr (sm', ct')
      \<and> dom sm' = dom sm \<and> dom ct' = dom ct
      \<and> (\<forall>d t. sm d = Some t \<longrightarrow> sm' d = Some (t + sum_list (entries d es)))
      \<and> (\<forall>d n. ct d = Some n \<longrightarrow> ct' d = Some (n + length (entries d es)))"
proof (induction es arbitrary: sm ct)
  case Nil
  then show ?case by simp
next
  case (Cons e es)
  obtain k v where e: "e = (k, v)" by (cases e)
  show ?case
  proof (cases "\<exists>t s. sm k = Some t \<and> v = Some s")
    case True
    then obtain t s where ts: "sm k = Some t" "v = Some s" by blast
    then have "k \<in> dom ct" using Cons.prems by auto
    then obtain n where n: "ct k = Some n" by auto
    let ?sm1 = "sm(k \<mapsto> t + s)" and ?ct1 = "ct(k \<mapsto> n + 1)"
    have doms: "dom ?sm1 = dom sm" "dom ?ct1 = dom ct"
      using ts n by auto
    then have "dom ?sm1 = dom ?ct1" using Cons.prems by simp
    from Cons.IH [OF this] obtain sm' ct' where
      run: "add_scores (?sm1, ?ct1) es = Inr (sm', ct')"
      and d': "dom sm' = dom ?sm1" "dom ct' = dom ?ct1"
      and s': "\<And>d t. ?sm1 d = Some t \<Longrightarrow> sm' d = Some (t + sum_list (entries d es))"
      and c': "\<And>d n. ?ct1 d = Some n \<Longrightarrow> ct' d = Some (n + length (entries d es))"
      by blast
    have "add_scores (sm, ct) (e # es) = Inr (sm', ct')"
      using e ts n run by simp
    moreover have "sm' d = Some (t' + sum_list (entries d (e # es)))" if "sm d = Some t'" for d t'
      using that s' [of d] ts e by (cases "d = k") auto
    moreover have "ct' d = Some (n' + length (entries d (e # es)))" if "ct d = Some n'" for d n'
      using that c' [of d] ts n e by (cases "d = k") auto
    ultimately show ?thesis using d' doms by blast
  next
    case False
    then have step: "add_scores (sm, ct) (e # es) = add_scores (sm, ct) es"
      using e by (auto split: option.splits)
    have ent: "entries d (e # es) = entries d es" if "sm d \<noteq> None" for d
      using that False e by (auto split: option.splits)
    from Cons.IH [OF Cons.prems] obtain sm' ct' where
      run: "add_scores (sm, ct) es = Inr (sm', ct')"
      and d': "dom sm' = dom sm" "dom ct' = dom ct"
      and s': "\<And>d t. sm d = Some t \<Longrightarrow> sm' d = Some (t + sum_list (entries d es))"
      and c': "\<And>d n. ct d = Some n \<Longrightarrow> ct' d = Some (n + length (entries d es))"
      by blast
    have "sm' d = Some (t' + sum_list (entries d (e # es)))" if "sm d = Some t'" for d t'
      using that s' [of d] ent [of d] by simp
    moreover have "ct' d = Some (n' + length (entries d (e # es)))" if "ct d = Some n'" for d n'
    proof -
      have "d \<in> dom sm" using that Cons.prems by auto
      then show ?thesis using that c' [of d] ent [of d] by auto
    qed
    ultimately show ?thesis using step run d' by auto
  qed
qed


lemma add_movies_run:
  "dom sm = dom ct \<Longrightarrow>
   \<exists>sm' ct'. add_movies (sm, ct) movies = Inr (sm', ct')
      \<and> dom sm' = dom sm \<and> dom ct' = dom ct
      \<and> (\<forall>d t. sm d = Some t \<longrightarrow> sm' d = Some (t + sum_list (all_entries d movies)))
      \<and> (\<forall>d n. ct d = Some n \<longrightarrow> ct' d = Some (n + length (all_entries d movies)))"
proof (induction movies arbitrary: sm ct)
  case Nil
  then show ?case by (simp add: all_entries_def)
next
  case (Cons m movies)
  from add_scores_run [OF Cons.prems, of "scores_of m"] obtain sm1 ct1 where
    run1: "add_scores (sm, ct) (scores_of m) = Inr (sm1, ct1)"
    and d1: "dom sm1 = dom sm" "dom ct1 = dom ct"
    and s1: "\<And>d t. sm d = Some t \<Longrightarrow> sm1 d = Some (t + sum_list (entries d (scores_of m)))"
    and c1: "\<And>d n. ct d = Some n \<Longrightarrow> ct1 d = Some (n + length (entries d (scores_of m)))"
    by blast
  have "dom sm1 = dom ct1" using d1 Cons.prems by simp
  from Cons.IH [OF this] obtain sm' ct' where
    run: "add_movies (sm1, ct1) movies = Inr (sm', ct')"
    and d': "dom sm' = dom sm1" "dom ct' = dom ct1"
    and s': "\<And>d t. sm1 d = Some t \<Longrightarrow> sm' d = Some (t + sum_list (all_entries d movies))"
    and c': "\<And>d n. ct1 d = Some n \<Longrightarrow> ct' d = Some (n + length (all_entries d movies))"
    by blast
  have "add_movies (sm, ct) (m # movies) = Inr (sm', ct')"
    using run1 run by simp
  moreover have "sm' d = Some (t + sum_list (all_entries d (m # movies)))" if "sm d = Some t" for d t
    using s' [OF s1 [OF that]] by (simp add: all_entries_def add.assoc)
  moreover have "ct' d = Some (n + length (all_entries d (m # movies)))" if "ct d = Some n" for d n
    using c' [OF c1 [OF that]] by (simp add: all_entries_def add.assoc)
  ultimately show ?case using d' d1 by auto
qed

lemma averages_run:
  "\<forall>d \<in> set ds. sm d = Some (f d) \<and> ct d = Some (g d) \<Longrightarrow>
   averages (sm, ct) ds = Inr (map (\<lambda>d. (d, if g d > 0 then f d / real (g d) else 4)) ds)"
  by (induction ds) auto

lemma map_of_init: "d \<in> set ds \<Longrightarrow> map_of (map (\<lambda>k. (k, c)) ds) d = Some c"
  by (induction ds) auto

lemma dom_init: "dom (map_of (map (\<lambda>k. (k, c)) ds)) = set ds"
  by (simp add: dom_map_of_conv_image_fst image_image)

lemma calculate_average_scores_eq:
  "calculate_average_scores movies =
     Inr (map (\<lambda>d. (d, mean_or_neutral (all_entries d movies))) dimension_names)"
proof -
  let ?sm = "map_of (map (\<lambda>k. (k, 0::real)) dimension_names)"
  let ?ct = "map_of (map (\<lambda>k. (k, 0::nat)) dimension_names)"
  have "dom ?sm = dom ?ct" by (simp only: dom_init)
  from add_movies_run [OF this, of movies] obtain sm' ct' where
    run: "add_movies (?sm, ?ct) movies = Inr (sm', ct')"
    and s': "\<And>d t. ?sm d = Some t \<Longrightarrow> sm' d = Some (t + sum_list (all_entries d movies))"
    and c': "\<And>d n. ?ct d = Some n \<Longrightarrow> ct' d = Some (n + length (all_entries d movies))"
    by blast
  have "\<forall>d \<in> set dimension_names. sm' d = Some (sum_list (all_entries d movies))
          \<and> ct' d = Some (length (all_entries d movies))"
    using s' [OF map_of_init] c' [OF map_of_init] by simp
  from averages_run [OF this] run show ?thesis
    by (simp add: calculate_average_scores_def mean_or_neutral_def)
qed

lemma entries_absent: "d \<notin> fst ` set es \<Longrightarrow> entries d es = []"
  by (induction es) (auto split: option.splits)

lemma entries_distinct:
  "distinct (map fst es) \<Longrightarrow>
   entries d es = (case map_of es d of Some (Some s) \<Rightarrow> [s] | _ \<Rightarrow> [])"
proof (induction es)
  case Nil
  then show ?case by simp
next
  case (Cons e es)
  obtain k v where e: "e = (k, v)" by (cases e)
  show ?case
  proof (cases "d = k")
    case True
    then have "entries d es = []" using Cons.prems e by (simp add: entries_absent)
    then show ?thesis using True e by (simp split: option.splits)
  next
    case False
    then show ?thesis using Cons e by (simp split: option.splits)
  qed
qed

lemma all_entries_supplied:
  "\<forall>m \<in> set movies. distinct (map fst (scores_of m)) \<Longrightarrow> all_entries d movies = supplied d movies"
  by (induction movies) (simp_all add: all_entries_def supplied_def entries_distinct)

lemma distinct_dimension_names: "distinct dimension_names"
  unfolding dimension_names_def by simp

lemma length_dimension_names: "length dimension_names = 62"
  unfolding dimension_names_def by simp


text \<open>
  C1. For every list of movies (each score dictionary with distinct keys, as a dictionary
  has), aggregation raises no error and returns one entry for each of the 62 registered
  dimensions, in registration order; the entry of a dimension is the arithmetic mean of
  the scores of exactly the movies that supply it, and 4.0 when no movie supplies it,
  which includes the empty list of movies.
\<close>

theorem aggregate_is_mean_of_suppliers:
  assumes "\<forall>m \<in> set movies. distinct (map fst (scores_of m))"
  shows "\<exists>avg_scores. calculate_average_scores movies = Inr avg_scores
           \<and> map fst avg_scores = dimension_names
           \<and> (\<forall>d \<in> set dimension_names.
                 map_of avg_scores d =
                   Some (if supplied d movies = [] then 4
                         else sum_list (supplied d movies) / real (length (supplied d movies))))"
proof -
  let ?avg = "map (\<lambda>d. (d, mean_or_neutral (all_entries d movies))) dimension_names"
  have "map fst ?avg = dimension_names" by (simp add: comp_def)
  moreover have "map_of ?avg d = Some (mean_or_neutral (supplied d movies))"
    if "d \<in> set dimension_names" for d
    using that all_entries_supplied [OF assms] by (simp add: map_of_map_restrict)
  ultimately show ?thesis
    using calculate_average_scores_eq [of movies] by (auto simp: mean_or_neutral_def)
qed


theorem aggregate_is_mean_of_suppliers_witness:
  "list_all (\<lambda>m. distinct (map fst (scores_of m)))
     [Some [(''editing_tempo'', Some 2), (''bogus'', Some 7)],
      Some [(''editing_tempo'', Some 6), (''score_density'', None)], None]
   \<and> (\<exists>avg_scores.
         calculate_average_scores
           [Some [(''editing_tempo'', Some 2), (''bogus'', Some 7)],
            Some [(''editing_tempo'', Some 6), (''score_density'', None)], None] = Inr avg_scores
         \<and> map_of avg_scores ''editing_tempo'' = Some 4
         \<and> map_of avg_scores ''score_density'' = Some 4)"
proof -
  let ?W = "[Some [(''editing_tempo'', Some 2), (''bogus'', Some 7)],
             Some [(''editing_tempo'', Some 6), (''score_density'', None)], None] :: scored_movie list"
  have h: "\<forall>m \<in> set ?W. distinct (map fst (scores_of m))"
    by (simp add: scores_of_def)
  have mem: "''editing_tempo'' \<in> set dimension_names" "''score_density'' \<in> set dimension_names"
    by (simp_all add: dimension_names_def)
  from aggregate_is_mean_of_suppliers [OF h] obtain avg_scores where
    run: "calculate_average_scores ?W = Inr avg_scores"
    and mean: "\<And>d. d \<in> set dimension_names \<Longrightarrow>
                 map_of avg_scores d =
                   Some (if supplied d ?W = [] then 4
                         else sum_list (supplied d ?W) / real (length (supplied d ?W)))"
    by blast
  have "map_of avg_scores ''editing_tempo'' = Some 4"
    using mean [OF mem(1)] by (simp add: supplied_def scores_of_def)
  moreover have "map_of avg_scores ''score_density'' = Some 4"
    using mean [OF mem(2)] by (simp add: supplied_def scores_of_def)
  moreover have "list_all (\<lambda>m. distinct (map fst (scores_of m))) ?W"
    by (simp add: scores_of_def)
  ultimately show ?thesis using run by blast
qed

lemma entries_drop_malformed:
  "d \<in> set dimension_names \<Longrightarrow> entries d (drop_malformed es) = entries d es"
proof (induction es)
  case Nil
  then show ?case by (simp add: drop_malformed_def)
next
  case (Cons e es)
  obtain k v where e: "e = (k, v)" by (cases e)
  have IH: "entries d (drop_malformed es) = entries d es"
    using Cons by simp
  have step: "drop_malformed (e # es) =
      (if k \<in> set dimension_names \<and> v \<noteq> None then e # drop_malformed es else drop_malformed es)"
    using e by (simp add: drop_malformed_def)
  show ?case
  proof (cases v)
    case None
    then show ?thesis using IH step e by simp
  next
    case (Some s)
    then show ?thesis using IH step e Cons.prems by auto
  qed
qed

lemma all_entries_cleaned:
  assumes "list_all2 (\<lambda>m m'. m' = m \<or> scores_of m' = drop_malformed (scores_of m)) movies movies'"
    and "d \<in> set dimension_names"
  shows "all_entries d movies' = all_entries d movies"
  using assms
  by (induction movies movies' rule: list_all2_induct)
     (auto simp: all_entries_def entries_drop_malformed)

text \<open>
  C10. Aggregation ignores malformed entries: when any of the movies have their entries
  with an unregistered dimension name or a \<open>None\<close> score removed, the aggregate score
  map is the same.
\<close>

theorem aggregation_ignores_malformed:
  assumes "list_all2 (\<lambda>m m'. m' = m \<or> scores_of m' = drop_malformed (scores_of m)) movies movies'"
  shows "calculate_average_scores movies' = calculate_average_scores movies"
  using all_entries_cleaned [OF assms]
  by (simp add: calculate_average_scores_eq)

theorem aggregation_ignores_malformed_witness:
  "list_all2 (\<lambda>m m'. m' = m \<or> scores_of m' = drop_malformed (scores_of m))
     [Some [(''editing_tempo'', Some 2), (''bogus'', Some 7)],
      Some [(''editing_tempo'', Some 6), (''score_density'', None)], None]
     [Some [(''editing_tempo'', Some 2)],
      Some [(''editing_tempo'', Some 6), (''score_density'', None)], None]
   \<and> calculate_average_scores
         [Some [(''editing_tempo'', Some 2)],
          Some [(''editing_tempo'', Some 6), (''score_density'', None)], None]
     = calculate_average_scores
         [Some [(''editing_tempo'', Some 2), (''bogus'', Some 7)],
          Some [(''editing_tempo'', Some 6), (''score_density'', None)], None]"
proof -
  have h: "list_all2 (\<lambda>m m'. m' = m \<or> scores_of m' = drop_malformed (scores_of m))
     [Some [(''editing_tempo'', Some 2), (''bogus'', Some 7)],
      Some [(''editing_tempo'', Some 6), (''score_density'', None)], None]
     [Some [(''editing_tempo'', Some 2)],
      Some [(''editing_tempo'', Some 6), (''score_density'', None)], None]"
    by (simp add: scores_of_def drop_malformed_def dimension_names_def)
  from aggregation_ignores_malformed [OF h] h show ?thesis by blast
qed

subsection \<open>Strong preferences\<close>

lemma classify_eq:
  "classify avg low high =
     (low @ filter (\<lambda>x. snd x \<le> 2.5) avg, high @ filter (\<lambda>x. snd x \<ge> 5.5) avg)"
  by (induction avg low high rule: classify.induct) auto

lemma identify_strong_preferences_eq:
  "identify_strong_preferences avg =
     \<lparr>low_end_preferences = take 10 (sort_key snd (filter (\<lambda>x. snd x \<le> 2.5) avg)),
      high_end_preferences = take 10 (sort_key (\<lambda>x. - snd x) (filter (\<lambda>x. snd x \<ge> 5.5) avg))\<rparr>"
  by (simp add: identify_strong_preferences_def classify_eq)

lemma top_subset: "set (take n (sort_key f xs)) \<subseteq> set xs"
  using set_take_subset [of n "sort_key f xs"] by simp

lemma top_sorted: "sorted (map f (take n (sort_key f xs)))"
  by (simp only: take_map [symmetric] sorted_wrt_take sorted_sort_key)

lemma top_ties: "prefix (filter (\<lambda>x. f x = k) (take n (sort_key f xs))) (filter (\<lambda>x. f x = k) xs)"
  using filter_mono_prefix [OF take_is_prefix, of "\<lambda>x. f x = k" n "sort_key f xs"]
  by (simp add: sort_key_stable)

lemma top_left_out:
  assumes "x \<in> set xs" and "x \<notin> set (take n (sort_key f xs))"
  shows "length (take n (sort_key f xs)) = n \<and> (\<forall>y \<in> set (take n (sort_key f xs)). f y \<le> f x)"
proof -
  let ?s = "sort_key f xs"
  have split: "take n ?s @ drop n ?s = ?s" by (rule append_take_drop_id)
  have "x \<in> set ?s" using assms(1) by (simp only: set_sort)
  then have "x \<in> set (take n ?s) \<union> set (drop n ?s)"
    by (simp only: set_append [symmetric] split)
  then have x: "x \<in> set (drop n ?s)" using assms(2) by blast
  have "n < length ?s"
  proof (rule ccontr)
    assume "\<not> n < length ?s"
    then have "drop n ?s = []" by simp
    then show False using x by simp
  qed
  then have len: "length (take n ?s) = n" by simp
  have "sorted (map f ?s)" by (rule sorted_sort_key)
  then have "sorted (map f (take n ?s) @ map f (drop n ?s))"
    by (simp only: map_append [symmetric] split)
  then have "\<forall>a \<in> set (map f (take n ?s)). \<forall>b \<in> set (map f (drop n ?s)). a \<le> b"
    by (simp only: sorted_append) blast
  then have "\<forall>y \<in> set (take n ?s). f y \<le> f x" using x by (simp only: set_map) blast
  then show ?thesis using len by blast
qed

lemma top_all: "length xs \<le> n \<Longrightarrow> set (take n (sort_key f xs)) = set xs"
  by simp


lemma same_key_same_value:
  "distinct (map fst xs) \<Longrightarrow> (k, a) \<in> set xs \<Longrightarrow> (k, b) \<in> set xs \<Longrightarrow> a = b"
  using map_of_is_SomeI [of xs k a] map_of_is_SomeI [of xs k b] by simp

text \<open>
  C4 (amended). For every aggregate score map: a dimension is in the low-pole list only
  if its score is at most 2.5 and in the high-pole list only if its score is at least
  5.5, so the two lists share no dimension name; each list has at most 10 entries and
  is ordered most-extreme first, dimensions of equal score in registration order; a
  qualifying dimension is left out of its list only when the list is full (10 entries)
  and then it is no more extreme than any listed dimension, so that when at most 10
  dimensions qualify for a list, the list holds exactly those.
\<close>

theorem strong_preferences_capped:
  assumes "map fst avg_scores = dimension_names"
  shows "set (low_end_preferences (identify_strong_preferences avg_scores))
            \<subseteq> {x \<in> set avg_scores. snd x \<le> 2.5}
       \<and> set (high_end_preferences (identify_strong_preferences avg_scores))
            \<subseteq> {x \<in> set avg_scores. snd x \<ge> 5.5}
       \<and> fst ` set (low_end_preferences (identify_strong_preferences avg_scores))
            \<inter> fst ` set (high_end_preferences (identify_strong_preferences avg_scores)) = {}
       \<and> length (low_end_preferences (identify_strong_preferences avg_scores)) \<le> 10
       \<and> length (high_end_preferences (identify_strong_preferences avg_scores)) \<le> 10
       \<and> sorted (map snd (low_end_preferences (identify_strong_preferences avg_scores)))
       \<and> sorted (rev (map snd (high_end_preferences (identify_strong_preferences avg_scores))))
       \<and> (\<forall>k. prefix (filter (\<lambda>x. snd x = k) (low_end_preferences (identify_strong_preferences avg_scores)))
                       (filter (\<lambda>x. snd x = k) avg_scores))
       \<and> (\<forall>k. prefix (filter (\<lambda>x. snd x = k) (high_end_preferences (identify_strong_preferences avg_scores)))
                       (filter (\<lambda>x. snd x = k) avg_scores))
       \<and> (\<forall>x \<in> set avg_scores. snd x \<le> 2.5 \<longrightarrow>
              x \<notin> set (low_end_preferences (identify_strong_preferences avg_scores)) \<longrightarrow>
                length (low_end_preferences (identify_strong_preferences avg_scores)) = 10
                \<and> (\<forall>y \<in> set (low_end_preferences (identify_strong_preferences avg_scores)). snd y \<le> snd x))
       \<and> (\<forall>x \<in> set avg_scores. snd x \<ge> 5.5 \<longrightarrow>
              x \<notin> set (high_end_preferences (identify_strong_preferences avg_scores)) \<longrightarrow>
                length (high_end_preferences (identify_strong_preferences avg_scores)) = 10
                \<and> (\<forall>y \<in> set (high_end_preferences (identify_strong_preferences avg_scores)). snd x \<le> snd y))
       \<and> (length (filter (\<lambda>x. snd x \<le> 2.5) avg_scores) \<le> 10 \<longrightarrow>
              set (low_end_preferences (identify_strong_preferences avg_scores))
                = {x \<in> set avg_scores. snd x \<le> 2.5})
       \<and> (length (filter (\<lambda>x. snd x \<ge> 5.5) avg_scores) \<le> 10 \<longrightarrow>
              set (high_end_preferences (identify_strong_preferences avg_scores))
                = {x \<in> set avg_scores. snd x \<ge> 5.5})"
proof -
  let ?L = "filter (\<lambda>x. snd x \<le> 2.5) avg_scores"
  let ?H = "filter (\<lambda>x. snd x \<ge> 5.5) avg_scores"
  let ?neg = "\<lambda>x :: string \<times> real. - snd x"
  define low where "low = take 10 (sort_key snd ?L)"
  define high where "high = take 10 (sort_key ?neg ?H)"
  have low: "low_end_preferences (identify_strong_preferences avg_scores) = low"
    and high: "high_end_preferences (identify_strong_preferences avg_scores) = high"
    by (simp_all add: identify_strong_preferences_eq low_def high_def)
  have dist: "distinct (map fst avg_scores)"
    using assms distinct_dimension_names by simp
  have sub_low: "set low \<subseteq> {x \<in> set avg_scores. snd x \<le> 2.5}"
    using top_subset [of 10 snd ?L] by (auto simp: low_def)
  have sub_high: "set high \<subseteq> {x \<in> set avg_scores. snd x \<ge> 5.5}"
    using top_subset [of 10 ?neg ?H] by (auto simp: high_def)
  have disjoint: "fst ` set low \<inter> fst ` set high = {}"
  proof (rule ccontr)
    assume "fst ` set low \<inter> fst ` set high \<noteq> {}"
    then obtain k a b where "(k, a) \<in> set low" "(k, b) \<in> set high" by force
    then have "(k, a) \<in> set avg_scores" "a \<le> 2.5" "(k, b) \<in> set avg_scores" "b \<ge> 5.5"
      using sub_low sub_high by auto
    then show False using same_key_same_value [OF dist, of k a b] by simp
  qed
  have len: "length low \<le> 10" "length high \<le> 10"
    by (simp_all add: low_def high_def)
  have sorted_low: "sorted (map snd low)"
    unfolding low_def by (rule top_sorted)
  have "sorted (map ?neg high)"
    unfolding high_def by (rule top_sorted)
  then have "sorted (map uminus (map snd high))"
    by (simp add: comp_def)
  then have sorted_high: "sorted (rev (map snd high))"
    by (simp add: sorted_wrt_rev sorted_wrt_map)
  have ties_low: "prefix (filter (\<lambda>x. snd x = k) low) (filter (\<lambda>x. snd x = k) avg_scores)" for k
  proof -
    have "prefix (filter (\<lambda>x. snd x = k) low) (filter (\<lambda>x. snd x = k) ?L)"
      unfolding low_def by (rule top_ties)
    moreover have "filter (\<lambda>x. snd x = k) ?L =
        (if k \<le> 2.5 then filter (\<lambda>x. snd x = k) avg_scores else [])"
      by (auto intro: filter_cong)
    ultimately show ?thesis by (simp split: if_splits)
  qed
  have ties_high: "prefix (filter (\<lambda>x. snd x = k) high) (filter (\<lambda>x. snd x = k) avg_scores)" for k
  proof -
    have "prefix (filter (\<lambda>x. ?neg x = - k) high) (filter (\<lambda>x. ?neg x = - k) ?H)"
      unfolding high_def by (rule top_ties)
    then have "prefix (filter (\<lambda>x. snd x = k) high) (filter (\<lambda>x. snd x = k) ?H)"
      by simp
    moreover have "filter (\<lambda>x. snd x = k) ?H =
        (if k \<ge> 5.5 then filter (\<lambda>x. snd x = k) avg_scores else [])"
      by (auto intro: filter_cong)
    ultimately show ?thesis by (simp split: if_splits)
  qed
  have out_low: "length low = 10 \<and> (\<forall>y \<in> set low. snd y \<le> snd x)"
    if "x \<in> set avg_scores" "snd x \<le> 2.5" "x \<notin> set low" for x
    using top_left_out [of x ?L 10 snd] that by (simp add: low_def)
  have out_high: "length high = 10 \<and> (\<forall>y \<in> set high. snd x \<le> snd y)"
    if "x \<in> set avg_scores" "snd x \<ge> 5.5" "x \<notin> set high" for x
    using top_left_out [of x ?H 10 ?neg] that by (simp add: high_def)
  have all_low: "set low = {x \<in> set avg_scores. snd x \<le> 2.5}" if "length ?L \<le> 10"
    using that by (auto simp: low_def)
  have all_high: "set high = {x \<in> set avg_scores. snd x \<ge> 5.5}" if "length ?H \<le> 10"
    using that by (auto simp: high_def)
  show ?thesis
    unfolding low high
  proof (intro conjI)
    show "set low \<subseteq> {x \<in> set avg_scores. snd x \<le> 2.5}" by (rule sub_low)
    show "set high \<subseteq> {x \<in> set avg_scores. snd x \<ge> 5.5}" by (rule sub_high)
    show "fst ` set low \<inter> fst ` set high = {}" by (rule disjoint)
    show "length low \<le> 10" by (rule len)
    show "length high \<le> 10" by (rule len)
    show "sorted (map snd low)" by (rule sorted_low)
    show "sorted (rev (map snd high))" by (rule sorted_high)
    show "\<forall>k. prefix (filter (\<lambda>x. snd x = k) low) (filter (\<lambda>x. snd x = k) avg_scores)"
      using ties_low by (rule allI)
    show "\<forall>k. prefix (filter (\<lambda>x. snd x = k) high) (filter (\<lambda>x. snd x = k) avg_scores)"
      using ties_high by (rule allI)
    show "\<forall>x \<in> set avg_scores. snd x \<le> 2.5 \<longrightarrow> x \<notin> set low \<longrightarrow>
            length low = 10 \<and> (\<forall>y \<in> set low. snd y \<le> snd x)"
      using out_low by (intro ballI impI)
    show "\<forall>x \<in> set avg_scores. snd x \<ge> 5.5 \<longrightarrow> x \<notin> set high \<longrightarrow>
            length high = 10 \<and> (\<forall>y \<in> set high. snd x \<le> snd y)"
      using out_high by (intro ballI impI)
    show "length ?L \<le> 10 \<longrightarrow> set low = {x \<in> set avg_scores. snd x \<le> 2.5}"
      using all_low by (intro impI)
    show "length ?H \<le> 10 \<longrightarrow> set high = {x \<in> set avg_scores. snd x \<ge> 5.5}"
      using all_high by (intro impI)
  qed
qed


lemma zip_replicate: "zip xs (replicate (length xs) c) = map (\<lambda>x. (x, c)) xs"
  by (induction xs) auto

lemma entries_constant:
  assumes "distinct ds" and "d \<in> set ds"
  shows "entries d (map (\<lambda>x. (x, Some c)) ds) = [c]"
proof -
  have "distinct (map fst (map (\<lambda>x. (x, Some c)) ds))"
    using assms(1) by (simp add: comp_def)
  from entries_distinct [OF this, of d] show ?thesis
    using assms(2) by (simp add: map_of_map_restrict)
qed

lemma aggregate_constant_movie:
  "calculate_average_scores [Some (zip dimension_names (replicate 62 (Some c)))]
     = Inr (zip dimension_names (replicate 62 c))"
proof -
  have "all_entries d [Some (map (\<lambda>x. (x, Some c)) dimension_names)] = [c]"
    if "d \<in> set dimension_names" for d
    using entries_constant [OF distinct_dimension_names that, of c]
    by (simp add: all_entries_def scores_of_def)
  then have "map (\<lambda>d. (d, mean_or_neutral
                 (all_entries d [Some (map (\<lambda>x. (x, Some c)) dimension_names)]))) dimension_names
           = map (\<lambda>d. (d, c)) dimension_names"
    by (simp add: mean_or_neutral_def)
  then show ?thesis
    using zip_replicate [of dimension_names "Some c"] zip_replicate [of dimension_names c]
    by (simp add: calculate_average_scores_eq length_dimension_names)
qed

lemma low_of_constant_two:
  "low_end_preferences (identify_strong_preferences (zip dimension_names (replicate 62 2)))
     = map (\<lambda>d. (d, 2)) (take 10 dimension_names)"
proof -
  let ?A = "map (\<lambda>d. (d, 2::real)) dimension_names"
  have A: "zip dimension_names (replicate 62 (2::real)) = ?A"
    using zip_replicate [of dimension_names "2::real"] by (simp add: length_dimension_names)
  have "filter (\<lambda>x. snd x \<le> 2.5) ?A = ?A" by (simp add: filter_map comp_def)
  moreover have "sort_key snd ?A = ?A"
    by (rule sort_key_id_if_sorted) (simp add: comp_def sorted_wrt_map)
  ultimately show ?thesis
    by (simp only: A identify_strong_preferences_eq strong_preferences.simps take_map)
qed

text \<open>
  Against the equivalence of C4 as first stated: one movie that scores every dimension
  2.0 aggregates to 2.0 everywhere, all 62 dimensions qualify for the low-pole list, and
  the list keeps the first ten; \<open>editing_tempo\<close>, the sixteenth dimension, has a score
  of at most 2.5 and is not listed.
\<close>

theorem strong_preferences_iff_counterexample:
  "calculate_average_scores [Some (zip dimension_names (replicate 62 (Some 2)))]
     = Inr (zip dimension_names (replicate 62 2))
   \<and> (''editing_tempo'', 2 :: real) \<in> set (zip dimension_names (replicate 62 2))
   \<and> (2 :: real) \<le> 2.5
   \<and> ''editing_tempo'' \<notin> fst ` set (low_end_preferences
          (identify_strong_preferences (zip dimension_names (replicate 62 2))))"
proof -
  have "(''editing_tempo'', 2::real) \<in> set (map (\<lambda>d. (d, 2)) dimension_names)"
    by (simp add: dimension_names_def)
  then have "(''editing_tempo'', 2::real) \<in> set (zip dimension_names (replicate 62 2))"
    using zip_replicate [of dimension_names "2::real"] by (simp add: length_dimension_names)
  moreover have "''editing_tempo'' \<notin> set (take 10 dimension_names)"
    by (simp add: dimension_names_def)
  then have "''editing_tempo'' \<notin> fst ` set (low_end_preferences
          (identify_strong_preferences (zip dimension_names (replicate 62 2))))"
    by (simp add: low_of_constant_two image_image)
  ultimately show ?thesis
    using aggregate_constant_movie [of 2] by simp
qed

theorem strong_preferences_capped_witness:
  "map fst (zip dimension_names (replicate 62 (2::real))) = dimension_names
   \<and> (''editing_tempo'', 2 :: real) \<in> set (zip dimension_names (replicate 62 2))
   \<and> (''editing_tempo'', 2 :: real) \<notin> set (low_end_preferences
        (identify_strong_preferences (zip dimension_names (replicate 62 2))))
   \<and> length (low_end_preferences
        (identify_strong_preferences (zip dimension_names (replicate 62 2)))) = 10
   \<and> fst ` set (low_end_preferences
        (identify_strong_preferences (zip dimension_names (replicate 62 2))))
     \<inter> fst ` set (high_end_preferences
        (identify_strong_preferences (zip dimension_names (replicate 62 2)))) = {}
   \<and> sorted (map snd (low_end_preferences
        (identify_strong_preferences (zip dimension_names (replicate 62 2)))))"
proof -
  let ?A = "zip dimension_names (replicate 62 (2::real))"
  let ?low = "low_end_preferences (identify_strong_preferences ?A)"
  have h: "map fst ?A = dimension_names"
    by (simp add: length_dimension_names)
  note t = strong_preferences_capped [OF h]
  have "(''editing_tempo'', 2::real) \<in> set (map (\<lambda>d. (d, 2)) dimension_names)"
    by (simp add: dimension_names_def)
  then have mem: "(''editing_tempo'', 2) \<in> set ?A"
    using zip_replicate [of dimension_names "2::real"] by (simp add: length_dimension_names)
  have "''editing_tempo'' \<notin> set (take 10 dimension_names)"
    by (simp add: dimension_names_def)
  then have out: "(''editing_tempo'', 2) \<notin> set ?low"
    by (auto simp: low_of_constant_two)
  have left_out: "\<forall>x \<in> set ?A. snd x \<le> 2.5 \<longrightarrow> x \<notin> set ?low \<longrightarrow>
      length ?low = 10 \<and> (\<forall>y \<in> set ?low. snd y \<le> snd x)"
    using t by (elim conjE)
  have full: "length ?low = 10"
    using left_out [rule_format, OF mem _ out] by simp
  have disjoint: "fst ` set ?low
      \<inter> fst ` set (high_end_preferences (identify_strong_preferences ?A)) = {}"
    using t by (elim conjE)
  have sorted: "sorted (map snd ?low)"
    using t by (elim conjE)
  show ?thesis
    using h mem out full disjoint sorted by (intro conjI)
qed

subsection \<open>Taste vector\<close>

text \<open>
  C5. Every taste vector has exactly 62 entries in registration order, entry i being
  (avg_i - 1)/6 for the score avg_i that the map gives dimension i (4.0 when the map
  lacks it); the normalization is monotonic, sends 1, 4 and 7 to 0, 0.5 and 1, and
  keeps every entry within [0,1] when every score is within [1,7].
\<close>

theorem taste_vector_normalized:
  "length (create_taste_vector avg_scores) = 62
   \<and> (\<forall>i < 62. create_taste_vector avg_scores ! i
                   = (dict_get avg_scores (dimension_names ! i) 4 - 1) / 6)
   \<and> (\<forall>i < 62. dict_get avg_scores (dimension_names ! i) 4 \<le> dict_get other (dimension_names ! i) 4
          \<longrightarrow> create_taste_vector avg_scores ! i \<le> create_taste_vector other ! i)
   \<and> (\<forall>i < 62. (dict_get avg_scores (dimension_names ! i) 4 = 1 \<longrightarrow> create_taste_vector avg_scores ! i = 0)
          \<and> (dict_get avg_scores (dimension_names ! i) 4 = 4 \<longrightarrow> create_taste_vector avg_scores ! i = 0.5)
          \<and> (dict_get avg_scores (dimension_names ! i) 4 = 7 \<longrightarrow> create_taste_vector avg_scores ! i = 1))
   \<and> ((\<forall>d \<in> set dimension_names. 1 \<le> dict_get avg_scores d 4 \<and> dict_get avg_scores d 4 \<le> 7)
          \<longrightarrow> (\<forall>x \<in> set (create_taste_vector avg_scores). 0 \<le> x \<and> x \<le> 1))"
proof -
  have nth: "create_taste_vector m ! i = (dict_get m (dimension_names ! i) 4 - 1) / 6"
    if "i < 62" for i m
    using that by (simp add: create_taste_vector_def length_dimension_names)
  have len: "length (create_taste_vector avg_scores) = 62"
    by (simp add: create_taste_vector_def length_dimension_names)
  have range: "\<forall>x \<in> set (create_taste_vector avg_scores). 0 \<le> x \<and> x \<le> 1"
    if "\<forall>d \<in> set dimension_names. 1 \<le> dict_get avg_scores d 4 \<and> dict_get avg_scores d 4 \<le> 7"
    using that by (auto simp: create_taste_vector_def)
  show ?thesis
  proof (intro conjI allI impI)
    show "length (create_taste_vector avg_scores) = 62" by (rule len)
    show "\<forall>x \<in> set (create_taste_vector avg_scores). 0 \<le> x \<and> x \<le> 1"
      if "\<forall>d \<in> set dimension_names. 1 \<le> dict_get avg_scores d 4 \<and> dict_get avg_scores d 4 \<le> 7"
      using that by (rule range)
  qed (simp_all add: nth divide_right_mono)
qed

theorem taste_vector_normalized_witness:
  "create_taste_vector [(''lighting_philosophy'', 7), (''editing_tempo'', 1)] ! 1 = 1
   \<and> create_taste_vector [(''lighting_philosophy'', 7), (''editing_tempo'', 1)] ! 15 = 0
   \<and> create_taste_vector [(''lighting_philosophy'', 7), (''editing_tempo'', 1)] ! 0 = 0.5
   \<and> length (create_taste_vector [(''lighting_philosophy'', 7), (''editing_tempo'', 1)]) = 62
   \<and> list_all (\<lambda>d. 1 \<le> dict_get [(''lighting_philosophy'', 7), (''editing_tempo'', 1 :: real)] d 4
                   \<and> dict_get [(''lighting_philosophy'', 7), (''editing_tempo'', 1 :: real)] d 4 \<le> 7)
        dimension_names
   \<and> list_all (\<lambda>x. 0 \<le> x \<and> x \<le> 1)
        (create_taste_vector [(''lighting_philosophy'', 7), (''editing_tempo'', 1)])"
proof -
  let ?A = "[(''lighting_philosophy'', 7), (''editing_tempo'', 1)] :: (string \<times> real) list"
  note t = taste_vector_normalized [of ?A ?A]
  have nth: "create_taste_vector ?A ! i = (dict_get ?A (dimension_names ! i) 4 - 1) / 6"
    if "i < 62" for i
    using t [THEN conjunct2, THEN conjunct1, rule_format, OF that] .
  have len: "length (create_taste_vector ?A) = 62"
    using t [THEN conjunct1] .
  have a: "create_taste_vector ?A ! 1 = 1"
    using nth [of 1] by (simp add: dict_get_def dimension_names_def)
  have b: "create_taste_vector ?A ! 15 = 0"
    using nth [of 15] by (simp add: dict_get_def dimension_names_def)
  have c: "create_taste_vector ?A ! 0 = 0.5"
    using nth [of 0] by (simp add: dict_get_def dimension_names_def)
  have "1 \<le> dict_get ?A d 4 \<and> dict_get ?A d 4 \<le> 7" for d
    by (simp add: dict_get_def)
  then have within: "list_all (\<lambda>d. 1 \<le> dict_get ?A d 4 \<and> dict_get ?A d 4 \<le> 7) dimension_names"
    by (simp add: list_all_iff)
  have "\<forall>x \<in> set (create_taste_vector ?A). 0 \<le> x \<and> x \<le> 1"
    using t [THEN conjunct2, THEN conjunct2, THEN conjunct2, THEN conjunct2] within
    by (simp only: list_all_iff) blast
  then have range: "list_all (\<lambda>x. 0 \<le> x \<and> x \<le> 1) (create_taste_vector ?A)"
    by (simp only: list_all_iff)
  show ?thesis
    using a b c len within range by (intro conjI)
qed

subsection \<open>Narrative gates\<close>

lemma in_set_if:
  "x \<in> set (if c then xs else ys) \<longleftrightarrow> (c \<and> x \<in> set xs) \<or> (\<not> c \<and> x \<in> set ys)"
  by simp

lemmas narrate_defs =
  generate_narrative_fingerprint_def narrate_visual_taste_def narrate_rhythm_taste_def
  narrate_sound_taste_def narrate_quality_taste_def narrate_story_taste_def
  narrate_emotional_taste_def Let_def in_set_if

lemma low_sentence_gate:
  "(d, Low) \<in> set (generate_narrative_fingerprint sc) \<longleftrightarrow>
     d \<in> set low_pole_dimensions \<and> dict_get sc d 4 < low_gate d"
proof
  assume "(d, Low) \<in> set (generate_narrative_fingerprint sc)"
  then show "d \<in> set low_pole_dimensions \<and> dict_get sc d 4 < low_gate d"
    apply (simp add: narrate_defs)
    apply (elim disjE conjE; simp add: low_pole_dimensions_def low_gate_def)
    done
next
  assume "d \<in> set low_pole_dimensions \<and> dict_get sc d 4 < low_gate d"
  then show "(d, Low) \<in> set (generate_narrative_fingerprint sc)"
    apply (simp add: low_pole_dimensions_def)
    apply (elim disjE conjE; simp add: narrate_defs low_gate_def)
    done
qed

lemma high_sentence_gate:
  "(d, High) \<in> set (generate_narrative_fingerprint sc) \<longleftrightarrow>
     d \<in> set high_pole_dimensions \<and> dict_get sc d 4 > high_gate d"
proof
  assume "(d, High) \<in> set (generate_narrative_fingerprint sc)"
  then show "d \<in> set high_pole_dimensions \<and> dict_get sc d 4 > high_gate d"
    apply (simp add: narrate_defs)
    apply (elim disjE conjE; simp add: high_pole_dimensions_def high_gate_def)
    done
next
  assume "d \<in> set high_pole_dimensions \<and> dict_get sc d 4 > high_gate d"
  then show "(d, High) \<in> set (generate_narrative_fingerprint sc)"
    apply (simp add: high_pole_dimensions_def)
    apply (elim disjE conjE; simp add: narrate_defs high_gate_def)
    done
qed


lemma dict_get_constant:
  "d \<in> set ds \<Longrightarrow> dict_get (zip ds (replicate (length ds) c)) d x = c"
  by (simp add: dict_get_def zip_replicate map_of_map_restrict)

text \<open>
  C7 (amended). A low-pole sentence is emitted exactly when its dimension's score is
  strictly below the dimension's low gate, a high-pole sentence exactly when the score is
  strictly above the high gate; the gates are 3 and 5 for every dimension except
  \<open>narrative_ambition_level\<close> and \<open>emotional_weight_tolerance\<close>, whose gates are 2.5 and
  5.5. In particular every emitted low-pole sentence has a score below 3 and every
  emitted high-pole sentence a score above 5.
\<close>

theorem narrative_sentence_gates:
  "((d, Low) \<in> set (generate_narrative_fingerprint avg_scores) \<longleftrightarrow>
      d \<in> set low_pole_dimensions \<and> dict_get avg_scores d 4 < low_gate d)
   \<and> ((d, High) \<in> set (generate_narrative_fingerprint avg_scores) \<longleftrightarrow>
      d \<in> set high_pole_dimensions \<and> dict_get avg_scores d 4 > high_gate d)
   \<and> ((d, Low) \<in> set (generate_narrative_fingerprint avg_scores) \<longrightarrow> dict_get avg_scores d 4 < 3)
   \<and> ((d, High) \<in> set (generate_narrative_fingerprint avg_scores) \<longrightarrow> dict_get avg_scores d 4 > 5)
   \<and> low_gate d = (if d \<in> {''narrative_ambition_level'', ''emotional_weight_tolerance''} then 2.5 else 3)
   \<and> high_gate d = (if d \<in> {''narrative_ambition_level'', ''emotional_weight_tolerance''} then 5.5 else 5)"
proof -
  have "low_gate d \<le> 3" and "high_gate d \<ge> 5"
    by (simp_all add: low_gate_def high_gate_def)
  then have "dict_get avg_scores d 4 < 3"
    if "(d, Low) \<in> set (generate_narrative_fingerprint avg_scores)"
    using that low_sentence_gate [of d avg_scores] by simp
  moreover have "dict_get avg_scores d 4 > 5"
    if "(d, High) \<in> set (generate_narrative_fingerprint avg_scores)"
    using that high_sentence_gate [of d avg_scores] \<open>high_gate d \<ge> 5\<close> by simp
  moreover have "low_gate d = (if d \<in> {''narrative_ambition_level'', ''emotional_weight_tolerance''} then 2.5 else 3)"
    and "high_gate d = (if d \<in> {''narrative_ambition_level'', ''emotional_weight_tolerance''} then 5.5 else 5)"
    by (simp_all add: low_gate_def high_gate_def)
  ultimately show ?thesis
    using low_sentence_gate [of d avg_scores] high_sentence_gate [of d avg_scores]
    by (intro conjI impI)
qed

theorem narrative_sentence_gates_witness:
  "(''editing_tempo'', Low) \<in> set (generate_narrative_fingerprint [(''editing_tempo'', 2)])
   \<and> dict_get [(''editing_tempo'', 2 :: real)] ''editing_tempo'' 4 < 3
   \<and> (''mystery_comfort'', High) \<notin> set (generate_narrative_fingerprint [(''editing_tempo'', 2)])"
proof -
  note t = narrative_sentence_gates [of "''editing_tempo''" "[(''editing_tempo'', 2)]"]
  note u = narrative_sentence_gates [of "''mystery_comfort''" "[(''editing_tempo'', 2)]"]
  have a: "(''editing_tempo'', Low) \<in> set (generate_narrative_fingerprint [(''editing_tempo'', 2)])"
    using t [THEN conjunct1] by (simp add: low_pole_dimensions_def low_gate_def dict_get_def)
  have b: "dict_get [(''editing_tempo'', 2 :: real)] ''editing_tempo'' 4 < 3"
    using t [THEN conjunct2, THEN conjunct2, THEN conjunct1] a by simp
  have c: "(''mystery_comfort'', High) \<notin> set (generate_narrative_fingerprint [(''editing_tempo'', 2)])"
    using u [THEN conjunct2, THEN conjunct1] by (simp add: high_gate_def dict_get_def)
  show ?thesis using a b c by (intro conjI)
qed

text \<open>
  Against the single pair of thresholds of C7 as first stated: with every dimension at
  2.7 the score of \<open>narrative_ambition_level\<close> is below 3, and the quality narrative
  holds no low-pole sentence for it.
\<close>

theorem narrative_threshold_counterexample:
  "calculate_average_scores [Some (zip dimension_names (replicate 62 (Some 2.7)))]
     = Inr (zip dimension_names (replicate 62 2.7))
   \<and> dict_get (zip dimension_names (replicate 62 2.7)) ''narrative_ambition_level'' 4 < (3 :: real)
   \<and> (''narrative_ambition_level'', Low)
        \<notin> set (narrate_quality_taste (zip dimension_names (replicate 62 2.7)))"
proof -
  have mem: "''narrative_ambition_level'' \<in> set dimension_names"
    by (simp add: dimension_names_def)
  have v: "dict_get (zip dimension_names (replicate 62 (2.7 :: real))) ''narrative_ambition_level'' 4 = 2.7"
    using dict_get_constant [OF mem, of "2.7 :: real" 4] by (simp add: length_dimension_names)
  have "(''narrative_ambition_level'', Low)
        \<notin> set (generate_narrative_fingerprint (zip dimension_names (replicate 62 2.7)))"
    by (simp add: low_sentence_gate v low_gate_def)
  then have "(''narrative_ambition_level'', Low)
        \<notin> set (narrate_quality_taste (zip dimension_names (replicate 62 2.7)))"
    by (simp add: generate_narrative_fingerprint_def)
  then show ?thesis
    using v aggregate_constant_movie [of "2.7"] by simp
qed

subsection \<open>Cosine similarity\<close>







section \<open>Verification of the recommendation engine\<close>

subsection \<open>Slugs\<close>

lemma slug_char_not_space: "slug_char c \<Longrightarrow> \<not> is_space c"
  by (auto simp: slug_char_def is_space_def is_lower_or_digit_def Let_def)

lemma slug_char_lower: "slug_char c \<Longrightarrow> lower_char c = c"
  by (auto simp: slug_char_def lower_char_def is_lower_or_digit_def Let_def)

lemma sub_spaces_chars:
  "\<forall>c \<in> set s. is_lower_or_digit c \<or> is_space c \<or> c = CHR ''-''
     \<Longrightarrow> \<forall>c \<in> set (sub_spaces s). slug_char c"
proof (induction s rule: sub_spaces.induct)
  case 1
  then show ?case by simp
next
  case (2 c cs)
  have "set (dropWhile is_space cs) \<subseteq> set cs" by (rule set_dropWhileD [THEN subsetI]) 
  then show ?case using 2 by (auto simp: slug_char_def)
qed

lemma sub_spaces_id: "\<forall>c \<in> set s. slug_char c \<Longrightarrow> sub_spaces s = s"
  by (induction s) (auto simp: slug_char_not_space)

lemma strip_hyphens_subset: "set (strip_hyphens s) \<subseteq> set s"
proof -
  have "set (dropWhile P xs) \<subseteq> set xs" for P and xs :: string
    by (rule set_dropWhileD [THEN subsetI])
  from this [of "\<lambda>c. c = CHR ''-''" "rev (dropWhile (\<lambda>c. c = CHR ''-'') s)"]
    this [of "\<lambda>c. c = CHR ''-''" s]
  show ?thesis by (auto simp: strip_hyphens_def)
qed

lemma prefix_single: "prefix [h] r \<longleftrightarrow> r \<noteq> [] \<and> hd r = h"
  by (cases r) auto

lemma suffix_single: "suffix [h] r \<longleftrightarrow> r \<noteq> [] \<and> last r = h"
proof (cases r rule: rev_cases)
  case Nil
  then show ?thesis by simp
next
  case (snoc ys y)
  have "suffix ([] @ [h]) (ys @ [y]) \<longleftrightarrow> h = y"
    by (simp only: snoc_suffix_snoc) auto
  then show ?thesis using snoc by auto
qed

lemma strip_both_ends:
  assumes "rev (dropWhile P (rev (dropWhile P xs))) \<noteq> []"
  shows "\<not> P (hd (rev (dropWhile P (rev (dropWhile P xs)))))
       \<and> \<not> P (last (rev (dropWhile P (rev (dropWhile P xs)))))"
proof -
  define ys where "ys = dropWhile P xs"
  define zs where "zs = dropWhile P (rev ys)"
  have zs: "zs \<noteq> []" using assms by (simp add: ys_def zs_def)
  then have "rev ys \<noteq> []" by (auto simp: zs_def)
  then have ys: "ys \<noteq> []" by simp
  have nP: "\<not> P (hd zs)" using zs hd_dropWhile [of P "rev ys"] by (simp add: zs_def)
  have "hd zs \<in> set zs" using zs by simp
  then have "hd zs \<in> set (rev ys)" unfolding zs_def by (rule set_dropWhileD)
  from dropWhile_last [of "hd zs" "rev ys" P, OF this nP]
  have "last zs = last (rev ys)" by (simp add: zs_def)
  then have "hd (rev zs) = hd ys" using zs ys by (simp add: hd_rev last_rev)
  moreover have "\<not> P (hd ys)" using ys hd_dropWhile [of P xs] by (simp add: ys_def)
  moreover have "last (rev zs) = hd zs" using zs by (simp add: last_rev)
  ultimately show ?thesis using nP by (simp add: ys_def zs_def)
qed

lemma strip_hyphens_ends:
  "\<not> prefix ''-'' (strip_hyphens s) \<and> \<not> suffix ''-'' (strip_hyphens s)"
  using strip_both_ends [of "\<lambda>c. c = CHR ''-''" s]
  by (auto simp only: strip_hyphens_def prefix_single suffix_single)

lemma strip_hyphens_id:
  assumes "\<not> prefix ''-'' s" and "\<not> suffix ''-'' s"
  shows "strip_hyphens s = s"
proof -
  have "s = [] \<or> hd s \<noteq> CHR ''-''"
    using assms(1) by (simp only: prefix_single) blast
  then have a: "dropWhile (\<lambda>c. c = CHR ''-'') s = s"
    by (simp only: dropWhile_eq_self_iff)
  have "s = [] \<or> last s \<noteq> CHR ''-''"
    using assms(2) by (simp only: suffix_single) blast
  then have "rev s = [] \<or> hd (rev s) \<noteq> CHR ''-''"
    by (simp only: hd_rev rev_is_Nil_conv)
  then have "dropWhile (\<lambda>c. c = CHR ''-'') (rev s) = rev s"
    by (simp only: dropWhile_eq_self_iff)
  then show ?thesis
    by (simp only: strip_hyphens_def a rev_rev_ident)
qed

lemma create_slug_chars: "\<forall>c \<in> set (create_slug t). slug_char c"
proof -
  have "\<forall>c \<in> set (sub_disallowed (map lower_char t)).
          is_lower_or_digit c \<or> is_space c \<or> c = CHR ''-''"
    by (simp add: sub_disallowed_def)
  from sub_spaces_chars [OF this] show ?thesis
    using strip_hyphens_subset by (auto simp: create_slug_def Let_def)
qed

lemma create_slug_fixed:
  assumes "\<forall>c \<in> set s. slug_char c" and "\<not> prefix ''-'' s" and "\<not> suffix ''-'' s"
  shows "create_slug s = s"
proof -
  have "map lower_char s = s"
    using assms(1) by (simp add: map_idI slug_char_lower)
  moreover have "sub_disallowed s = s"
    using assms(1) by (simp add: sub_disallowed_def filter_id_conv slug_char_def) blast
  ultimately show ?thesis
    using assms by (simp add: create_slug_def sub_spaces_id strip_hyphens_id)
qed

text \<open>
  C9. Slug normalization is idempotent, and a slug consists of lowercase letters, digits
  and hyphens only, with no hyphen at its start or at its end.
\<close>

theorem create_slug_idempotent:
  "create_slug (create_slug t) = create_slug t
   \<and> list_all slug_char (create_slug t)
   \<and> \<not> prefix ''-'' (create_slug t) \<and> \<not> suffix ''-'' (create_slug t)"
proof -
  have ends: "\<not> prefix ''-'' (create_slug t) \<and> \<not> suffix ''-'' (create_slug t)"
    using strip_hyphens_ends by (simp add: create_slug_def Let_def)
  then show ?thesis
    using create_slug_chars [of t] create_slug_fixed [of "create_slug t"]
    by (simp add: list_all_iff)
qed

lemma slug_example: "create_slug '' The  Matrix: Re-loaded! '' = ''the-matrix-re-loaded''"
  by code_simp

theorem create_slug_idempotent_witness:
  "create_slug ''the-matrix-re-loaded'' = ''the-matrix-re-loaded''
   \<and> list_all slug_char ''the-matrix-re-loaded''
   \<and> \<not> prefix ''-'' ''the-matrix-re-loaded'' \<and> \<not> suffix ''-'' ''the-matrix-re-loaded''"
  using create_slug_idempotent [of "'' The  Matrix: Re-loaded! ''", unfolded slug_example] .

subsection \<open>Candidate scores\<close>

lemma score_candidate_score:
  "recommendation_score (score_candidate profile d c) = Some (spec_score profile d c)"
proof -
  have "(case director c of Some x \<Rightarrow> x \<in> set (top_directors profile) | None \<Rightarrow> False)
          \<longleftrightarrow> director c \<in> Some ` set (top_directors profile)"
    by (cases "director c") auto
  moreover have "set (get_or (themes c) []) \<noteq> {} \<longleftrightarrow> get_or (themes c) [] \<noteq> []"
    by simp
  ultimately show ?thesis
    by (simp add: score_candidate_def spec_score_def spec_genre_match_def spec_theme_match_def
        spec_director_bonus_def spec_recency_def Let_def)
qed

lemma score_candidate_fields:
  "base_similarity (score_candidate profile d c) = base_similarity c"
  "genres (score_candidate profile d c) = genres c"
  "themes (score_candidate profile d c) = themes c"
  "director (score_candidate profile d c) = director c"
  "year (score_candidate profile d c) = year c"
  "title (score_candidate profile d c) = title c"
  by (simp_all add: score_candidate_def Let_def)

lemma spec_score_scored:
  "spec_score profile d (score_candidate profile d c) = spec_score profile d c"
  by (simp add: spec_score_def spec_genre_match_def spec_theme_match_def
      spec_director_bonus_def spec_recency_def score_candidate_fields)

lemma set_score_candidates:
  "set (score_candidates cs profile loved d) = score_candidate profile d ` set cs"
  by (simp add: score_candidates_def)

lemma scenario_score: "spec_score scenario_profile 0.3 scenario_candidate = 0.591"
  by (simp add: spec_score_def spec_genre_match_def spec_theme_match_def
      spec_director_bonus_def spec_recency_def scenario_profile_def scenario_candidate_def
      get_or_def)

text \<open>
  C2. The score that the candidate scorer assigns is the specification's weighted sum,
  for every candidate, profile and diversity factor, on each candidate alone and on
  every element of the sorted list that the scorer returns; on the specification's
  scenario it is 0.591.
\<close>

theorem recommendation_score_is_weighted_sum:
  "recommendation_score (score_candidate profile d c) = Some (spec_score profile d c)
   \<and> (\<forall>r \<in> set (score_candidates candidates profile loved d).
         recommendation_score r = Some (spec_score profile d r))
   \<and> recommendation_score (score_candidate scenario_profile 0.3 scenario_candidate) = Some 0.591"
proof (intro conjI ballI)
  show "recommendation_score (score_candidate profile d c) = Some (spec_score profile d c)"
    by (rule score_candidate_score)
  show "recommendation_score r = Some (spec_score profile d r)"
    if "r \<in> set (score_candidates candidates profile loved d)" for r
    using that by (auto simp: set_score_candidates score_candidate_score spec_score_scored)
  show "recommendation_score (score_candidate scenario_profile 0.3 scenario_candidate) = Some 0.591"
    by (simp only: score_candidate_score scenario_score)
qed

theorem recommendation_score_is_weighted_sum_witness:
  "score_candidates [scenario_candidate] scenario_profile ([] :: movie list) 0.3
     = [score_candidate scenario_profile 0.3 scenario_candidate]
   \<and> recommendation_score (score_candidate scenario_profile 0.3 scenario_candidate)
       = Some (spec_score scenario_profile 0.3 (score_candidate scenario_profile 0.3 scenario_candidate))
   \<and> spec_score scenario_profile 0.3 (score_candidate scenario_profile 0.3 scenario_candidate) = 0.591"
proof -
  have l: "score_candidates [scenario_candidate] scenario_profile ([] :: movie list) 0.3
     = [score_candidate scenario_profile 0.3 scenario_candidate]"
    by (simp add: score_candidates_def)
  note t = recommendation_score_is_weighted_sum
    [of scenario_profile "0.3" scenario_candidate "[scenario_candidate]" "[] :: movie list"]
  have "recommendation_score (score_candidate scenario_profile 0.3 scenario_candidate)
       = Some (spec_score scenario_profile 0.3 (score_candidate scenario_profile 0.3 scenario_candidate))"
    using t [THEN conjunct2, THEN conjunct1] by (simp add: l)
  then show ?thesis
    using l by (simp add: spec_score_scored scenario_score)
qed

subsection \<open>Taste profile\<close>

text \<open>
  C8. On the empty list of loved films the profile has no top genres, average year 0
  and 0 movies; on a non-empty list the average year is the sum of the films' years, a
  film without a year counting 0, divided by the number of films.
\<close>

theorem taste_profile_empty_and_average_year:
  "top_genres (analyze_taste_profile []) = []
   \<and> average_year (analyze_taste_profile []) = 0
   \<and> total_movies (analyze_taste_profile []) = 0
   \<and> (loved_movies \<noteq> [] \<longrightarrow>
        average_year (analyze_taste_profile loved_movies)
          = real_of_int (\<Sum>m\<leftarrow>loved_movies. case year m of None \<Rightarrow> 0 | Some y \<Rightarrow> y)
              / real (length loved_movies))"
proof -
  show ?thesis
    by (simp add: analyze_taste_profile_def top_names_def Let_def get_or_def)
qed

theorem taste_profile_empty_and_average_year_witness:
  "sample_loved \<noteq> [] \<and> average_year (analyze_taste_profile sample_loved) = 989.5"
proof -
  have ne: "sample_loved \<noteq> []" by (simp add: sample_loved_def)
  note t = taste_profile_empty_and_average_year [of sample_loved]
  have "average_year (analyze_taste_profile sample_loved)
          = real_of_int (\<Sum>m\<leftarrow>sample_loved. case year m of None \<Rightarrow> 0 | Some y \<Rightarrow> y)
              / real (length sample_loved)"
    using t [THEN conjunct2, THEN conjunct2, THEN conjunct2] ne by blast
  then show ?thesis using ne by (simp add: sample_loved_def)
qed

subsection \<open>Selection\<close>

lemma select_loop_invariant:
  assumes "distinct (map (\<lambda>r. create_slug (get_or (title r) [])) recs)"
    and "(\<lambda>r. create_slug (get_or (title r) [])) ` set recs \<subseteq> seen"
  shows "distinct (map (\<lambda>r. create_slug (get_or (title r) [])) (select_loop cs n seen recs))
       \<and> set (select_loop cs n seen recs) \<subseteq> set recs \<union> set cs"
  using assms
proof (induction cs arbitrary: seen recs)
  case Nil
  then show ?case by simp
next
  case (Cons c cs)
  let ?slug = "\<lambda>r. create_slug (get_or (title r) [])"
  show ?case
  proof (cases "?slug c \<notin> seen \<and> kind c \<noteq> Some ''loved''")
    case True
    then have fresh: "?slug c \<notin> ?slug ` set recs" using Cons.prems(2) by blast
    have d: "distinct (map ?slug (recs @ [c]))"
      using Cons.prems(1) fresh by simp
    have s: "?slug ` set (recs @ [c]) \<subseteq> insert (?slug c) seen"
      using Cons.prems(2) by auto
    show ?thesis
    proof (cases "int (length (recs @ [c])) \<ge> n")
      case True
      then have "select_loop (c # cs) n seen recs = recs @ [c]"
        using \<open>?slug c \<notin> seen \<and> kind c \<noteq> Some ''loved''\<close> by (simp add: Let_def)
      then show ?thesis using d by auto
    next
      case False
      then have "select_loop (c # cs) n seen recs
          = select_loop cs n (insert (?slug c) seen) (recs @ [c])"
        using \<open>?slug c \<notin> seen \<and> kind c \<noteq> Some ''loved''\<close> by (simp add: Let_def)
      then show ?thesis using Cons.IH [OF d s] by auto
    qed
  next
    case False
    then have "select_loop (c # cs) n seen recs = select_loop cs n seen recs"
      by (auto simp: Let_def)
    then show ?thesis using Cons.IH [OF Cons.prems] by auto
  qed
qed

lemma candidates_for_not_excluded:
  "r \<in> set (candidates_for fs excluded m) \<Longrightarrow> create_slug (get_or (title r) []) \<notin> excluded"
  by (auto simp: candidates_for_def Let_def)

text \<open>
  C3. The recommendations that \<open>generate_recommendations\<close> returns have pairwise
  different slugs, and none of them has the slug of a film of the exclusion set (the
  rated films, or the loved films when no rated list is given).
\<close>

theorem recommendations_distinct_not_excluded:
  "distinct (map (\<lambda>r. create_slug (get_or (title r) []))
       (recommendations (generate_recommendations find_similar_movies user_loved_movies
          user_rated_movies num_recommendations diversity_factor)))
   \<and> (\<forall>r \<in> set (recommendations (generate_recommendations find_similar_movies user_loved_movies
          user_rated_movies num_recommendations diversity_factor)).
        create_slug (get_or (title r) []) \<notin> excluded_slugs user_loved_movies user_rated_movies)"
proof -
  let ?excluded = "excluded_slugs user_loved_movies user_rated_movies"
  let ?profile = "analyze_taste_profile user_loved_movies"
  let ?all = "concat (map (candidates_for find_similar_movies ?excluded) user_loved_movies)"
  let ?scored = "score_candidates ?all ?profile user_loved_movies diversity_factor"
  let ?final = "select_loop ?scored num_recommendations {} []"
  have final: "recommendations (generate_recommendations find_similar_movies user_loved_movies
          user_rated_movies num_recommendations diversity_factor) = ?final"
    by (simp add: generate_recommendations_def select_top_recommendations_def Let_def)
  have inv: "distinct (map (\<lambda>r. create_slug (get_or (title r) [])) ?final)
       \<and> set ?final \<subseteq> set [] \<union> set ?scored"
    by (rule select_loop_invariant) simp_all
  have "create_slug (get_or (title r) []) \<notin> ?excluded" if "r \<in> set ?final" for r
  proof -
    from that inv have "r \<in> set ?scored" by auto
    then obtain c where c: "c \<in> set ?all" and r: "r = score_candidate ?profile diversity_factor c"
      by (auto simp: set_score_candidates)
    from c have "create_slug (get_or (title c) []) \<notin> ?excluded"
      by (auto dest: candidates_for_not_excluded)
    then show ?thesis by (simp add: r score_candidate_fields)
  qed
  then show ?thesis using inv by (simp only: final) blast
qed

lemma sample_recommendations: "map title (recommendations (generate_recommendations sample_similar sample_loved None 5 0.3))
   = [Some ''Aliens'']"
  by code_simp

theorem recommendations_distinct_not_excluded_witness:
  "map title (recommendations (generate_recommendations sample_similar sample_loved None 5 0.3))
     = [Some ''Aliens'']
   \<and> distinct (map (\<lambda>r. create_slug (get_or (title r) []))
        (recommendations (generate_recommendations sample_similar sample_loved None 5 0.3)))
   \<and> list_all (\<lambda>r. create_slug (get_or (title r) []) \<notin> excluded_slugs sample_loved None)
        (recommendations (generate_recommendations sample_similar sample_loved None 5 0.3))"
  using recommendations_distinct_not_excluded [of sample_similar sample_loved None 5 "0.3"]
    sample_recommendations
  by (simp only: list_all_iff) blast

end
